theory Spec2Isabelle
  imports Main "HOL-Library.Sublist"
begin

section \<open>Python values, strings and exceptions\<close>

text \<open>
  A Python \<open>str\<close> is a sequence of Unicode code points; the prompts and the History
  records of \<open>Plan_and_solve.py\<close> are written in Chinese, so a string is modelled as the
  list of its code points.  Literals are given as code points with the text in a comment.
\<close>

type_synonym pystr = "nat list"

text \<open>
  The exception classes that can reach the handlers of the module.  A subclass that the
  handlers do not distinguish stands for its base class, except \<open>JSONDecodeError\<close>,
  which \<open>_parse_tool_request\<close> names, and \<open>UnicodeEncodeError\<close>, which \<open>print\<close>
  raises; both are subclasses of \<open>ValueError\<close>.
\<close>

datatype pyexn =
    JSONDecodeError
  | UnicodeEncodeError
  | ValueError
  | SyntaxError
  | IndexError
  | TypeError
  | MemoryError
  | RecursionError
  | OtherException pystr

fun isinstance_exn :: "pyexn \<Rightarrow> pyexn \<Rightarrow> bool" where
  "isinstance_exn JSONDecodeError ValueError = True"
| "isinstance_exn UnicodeEncodeError ValueError = True"
| "isinstance_exn e cls = (e = cls)"

text \<open>The values that \<open>json.loads\<close> and \<open>ast.literal_eval\<close> can build.\<close>

datatype pyval =
    PNone
  | PBool bool
  | PInt int
  | PFloat int int
  | PStr pystr
  | PBytes "nat list"
  | PList "pyval list"
  | PTuple "pyval list"
  | PSet "pyval list"
  | PDict "(pyval \<times> pyval) list"

text \<open>
  The standard-library functions the module calls are not part of the repository; they
  are parameters of the model.  \<open>json_loads\<close> and \<open>literal_eval\<close> return the parsed value
  or the exception they raise; a \<open>PDict\<close> they return lists each key once, as a Python
  dict holds it.  \<open>py_repr\<close> is what \<open>str\<close> gives for a value that is not a string, or
  the exception it raises (\<open>ValueError\<close> for an integer of more than 4300 digits).
  \<open>repr_strs\<close> is \<open>str\<close> of a list of strings, which does not raise.  \<open>exn_str\<close> is
  \<open>str(e)\<close>, the message of an exception.
\<close>

record pylib =
  json_loads :: "pystr \<Rightarrow> pyexn + pyval"
  literal_eval :: "pystr \<Rightarrow> pyexn + pyval"
  py_repr :: "pyval \<Rightarrow> pyexn + pystr"
  repr_strs :: "pystr list \<Rightarrow> pystr"
  exn_str :: "pyexn \<Rightarrow> pystr"

definition py_str :: "pylib \<Rightarrow> pyval \<Rightarrow> pyexn + pystr" where
  "py_str lib v = (case v of PStr s \<Rightarrow> Inr s | _ \<Rightarrow> py_repr lib v)"

subsection \<open>\<open>str.split\<close>, \<open>str.strip\<close> and indexing\<close>

text \<open>
  \<open>s.split(sep)\<close> for a non-empty separator: scan from the left, cut at every
  occurrence of \<open>sep\<close> and resume after it.  (Python raises \<open>ValueError\<close> for an empty
  separator; the module only splits at the two fence literals.)
\<close>

function split_acc :: "pystr \<Rightarrow> pystr \<Rightarrow> pystr \<Rightarrow> pystr list" where
  "split_acc sep cur [] = [cur]"
| "split_acc sep cur (c # cs) =
     (if sep \<noteq> [] \<and> prefix sep (c # cs)
      then cur # split_acc sep [] (drop (length sep) (c # cs))
      else split_acc sep (cur @ [c]) cs)"
  by pat_completeness auto
termination
  by (relation "measure (\<lambda>(sep, cur, s). length s)") auto

definition split_py :: "pystr \<Rightarrow> pystr \<Rightarrow> pystr list" where
  "split_py sep s = split_acc sep [] s"

text \<open>The code points for which \<open>str.isspace\<close> holds; \<open>str.strip()\<close> removes them.\<close>

definition py_isspace :: "nat \<Rightarrow> bool" where
  "py_isspace c \<longleftrightarrow>
     (9 \<le> c \<and> c \<le> 13) \<or> (28 \<le> c \<and> c \<le> 32) \<or> c = 133 \<or> c = 160 \<or> c = 5760 \<or>
     (8192 \<le> c \<and> c \<le> 8202) \<or> c = 8232 \<or> c = 8233 \<or> c = 8239 \<or> c = 8287 \<or> c = 12288"

definition strip_py :: "pystr \<Rightarrow> pystr" where
  "strip_py s = rev (dropWhile py_isspace (rev (dropWhile py_isspace s)))"

text \<open>\<open>xs[i]\<close> for a non-negative index: \<open>IndexError\<close> out of range.\<close>

definition index_py :: "'a list \<Rightarrow> nat \<Rightarrow> pyexn + 'a" where
  "index_py xs i = (if i < length xs then Inr (xs ! i) else Inl IndexError)"

subsection \<open>\<open>print\<close>\<close>

text \<open>
  \<open>print(s)\<close> encodes the text for standard output, taken to be a strict UTF-8 stream
  (the default of Python 3 under a UTF-8 locale): a surrogate code point, U+D800 to
  U+DFFF, cannot be encoded and \<open>print\<close> raises \<open>UnicodeEncodeError\<close>; every other text
  is written.  The result is the exception raised, if any.
\<close>

definition is_surrogate :: "nat \<Rightarrow> bool" where
  "is_surrogate c \<longleftrightarrow> 55296 \<le> c \<and> c \<le> 57343"

definition printable :: "pystr \<Rightarrow> bool" where
  "printable s \<longleftrightarrow> list_all (\<lambda>c. \<not> is_surrogate c) s"

definition py_print :: "pystr \<Rightarrow> pyexn option" where
  "py_print s = (if printable s then None else Some UnicodeEncodeError)"

text \<open>\<open>str(n)\<close> for a natural number: its decimal digits.\<close>

fun str_nat :: "nat \<Rightarrow> pystr" where
  "str_nat n = (if n < 10 then [48 + n] else str_nat (n div 10) @ [48 + n mod 10])"

declare str_nat.simps [simp del]

section \<open>The Completion Engine\<close>

datatype role = User | Assistant

record message =
  role :: role
  content :: pystr

text \<open>
  \<open>llm_client.think(messages)\<close> returns a text or \<open>None\<close>.  The engine is external and
  may answer the same conversation differently each time, so it reads and updates a
  world state \<open>'w\<close>.
\<close>

type_synonym 'w think = "'w \<Rightarrow> message list \<Rightarrow> pystr option \<times> 'w"

text \<open>\<open>x or ""\<close> for \<open>x\<close> a string or \<open>None\<close>.\<close>

definition or_empty :: "pystr option \<Rightarrow> pystr" where
  "or_empty r = (case r of None \<Rightarrow> [] | Some s \<Rightarrow> (if s \<noteq> [] then s else []))"

section \<open>Planner\<close>

definition PLANNER_PROMPT_TEMPLATE :: "pystr \<Rightarrow> pystr" where
  "PLANNER_PROMPT_TEMPLATE question =
     [10, 20320, 26159, 19968, 20010, 39030, 32423, 30340, 65, 73, 35268, 21010, 19987,
     23478, 12290, 20320, 30340, 20219, 21153, 26159, 23558, 29992, 25143, 25552, 20986,
     30340, 22797, 26434, 38382, 39064, 20998, 35299, 25104, 19968, 20010, 30001, 22810,
     20010, 31616, 21333, 27493, 39588, 32452, 25104, 30340, 34892, 21160, 35745, 21010,
     12290, 10, 35831, 30830, 20445, 35745, 21010, 20013, 30340, 27599, 20010, 27493,
     39588, 37117, 26159, 19968, 20010, 29420, 31435, 30340, 12289, 21487, 25191, 34892,
     30340, 23376, 20219, 21153, 65292, 24182, 19988, 20005, 26684, 25353, 29031, 36923,
     36753, 39034, 24207, 25490, 21015, 12290, 10, 20320, 30340, 36755, 20986, 24517,
     39035, 26159, 19968, 20010, 80, 121, 116, 104, 111, 110, 21015, 34920, 44, 32, 20854,
     20013, 27599, 20010, 20803, 32032, 37117, 26159, 19968, 20010, 25551, 36848, 23376,
     20219, 21153, 30340, 23383, 31526, 20018, 12290, 10, 10, 38382, 39064, 58, 32]
     @ question @
     [10, 10, 35831, 20005, 26684, 25353, 29031, 20197, 19979, 26684, 24335, 36755, 20986,
     20320, 30340, 35745, 21010, 65292, 96, 96, 96, 112, 121, 116, 104, 111, 110, 19982,
     96, 96, 96, 20316, 20026, 21069, 21518, 32512, 26159, 24517, 35201, 30340, 58, 10, 96,
     96, 96, 112, 121, 116, 104, 111, 110, 10, 91, 34, 27493, 39588, 49, 34, 44, 32, 34,
     27493, 39588, 50, 34, 44, 32, 34, 27493, 39588, 51, 34, 44, 32, 46, 46, 46, 93, 10,
     96, 96, 96, 10]"

text \<open>The two fence literals: \<^verbatim>\<open>```python\<close> and \<^verbatim>\<open>```\<close>.\<close>

definition fence_open :: pystr where
  "fence_open = [96, 96, 96, 112, 121, 116, 104, 111, 110]"

definition fence_close :: pystr where
  "fence_close = [96, 96, 96]"

text \<open>
  The first line of the \<open>try\<close> block of \<open>Planner.plan\<close>:
  \<^verbatim>\<open>plan_str = response_text.split("```python")[1].split("```")[0].strip()\<close>.
\<close>

definition plan_str :: "pystr \<Rightarrow> pyexn + pystr" where
  "plan_str response_text =
     (case index_py (split_py fence_open response_text) 1 of
        Inl e \<Rightarrow> Inl e
      | Inr rest \<Rightarrow>
          (case index_py (split_py fence_close rest) 0 of
             Inl e \<Rightarrow> Inl e
           | Inr block \<Rightarrow> Inr (strip_py block)))"

text \<open>
  The rest of the \<open>try\<close> block: \<^verbatim>\<open>plan = ast.literal_eval(plan_str)\<close> and
  \<^verbatim>\<open>return plan if isinstance(plan, list) else []\<close>.
\<close>

definition plan_try :: "pylib \<Rightarrow> pystr \<Rightarrow> pyexn + pyval list" where
  "plan_try lib response_text =
     (case plan_str response_text of
        Inl e \<Rightarrow> Inl e
      | Inr s \<Rightarrow>
          (case literal_eval lib s of
             Inl e \<Rightarrow> Inl e
           | Inr plan \<Rightarrow> Inr (case plan of PList xs \<Rightarrow> xs | _ \<Rightarrow> [])))"

text \<open>
  The texts \<open>Planner.plan\<close> prints: the banner of line 42, the response (line 44), and
  in the handlers the message of the exception (lines 51 and 55) and the response again
  (line 52).
\<close>

definition PLAN_BANNER :: pystr where
  "PLAN_BANNER = [45, 45, 45, 32, 27491, 22312, 29983, 25104, 35745, 21010, 32, 45, 45, 45]"

definition plan_generated_text :: "pystr \<Rightarrow> pystr" where
  "plan_generated_text response_text =
     [9989, 32, 35745, 21010, 24050, 29983, 25104, 58, 10] @ response_text"

definition plan_error_text :: "pystr \<Rightarrow> pystr" where
  "plan_error_text msg =
     [10060, 32, 35299, 26512, 35745, 21010, 26102, 20986, 38169, 58, 32] @ msg"

definition plan_raw_text :: "pystr \<Rightarrow> pystr" where
  "plan_raw_text response_text = [21407, 22987, 21709, 24212, 58, 32] @ response_text"

definition plan_unknown_text :: "pystr \<Rightarrow> pystr" where
  "plan_unknown_text msg =
     [10060, 32, 35299, 26512, 35745, 21010, 26102, 21457, 29983, 26410, 30693, 38169,
      35823, 58, 32] @ msg"

text \<open>
  The \<open>try\<close> statement with its two handlers, \<open>except (ValueError, SyntaxError,
  IndexError)\<close> and \<open>except Exception\<close>.  Both print and return the empty list; an
  exception raised by a \<open>print\<close> inside a handler leaves the method.
\<close>

definition plan_handlers :: "pylib \<Rightarrow> pystr \<Rightarrow> pyexn + pyval list" where
  "plan_handlers lib response_text =
     (case plan_try lib response_text of
        Inr plan \<Rightarrow> Inr plan
      | Inl e \<Rightarrow>
          (if isinstance_exn e ValueError \<or> isinstance_exn e SyntaxError
              \<or> isinstance_exn e IndexError
           then
             (case py_print (plan_error_text (exn_str lib e)) of
                Some e' \<Rightarrow> Inl e'
              | None \<Rightarrow>
                  (case py_print (plan_raw_text response_text) of
                     Some e' \<Rightarrow> Inl e'
                   | None \<Rightarrow> Inr []))
           else
             (case py_print (plan_unknown_text (exn_str lib e)) of
                Some e' \<Rightarrow> Inl e'
              | None \<Rightarrow> Inr [])))"

text \<open>
  \<open>Planner.plan\<close>: the prompt, the banner, the call of the engine, the print of the
  response, and the \<open>try\<close> statement.  The two prints stand outside the \<open>try\<close>.
\<close>

definition Planner_plan ::
  "pylib \<Rightarrow> 'w think \<Rightarrow> pystr \<Rightarrow> 'w \<Rightarrow> (pyexn + pyval list) \<times> 'w" where
  "Planner_plan lib think question w =
     (let prompt = PLANNER_PROMPT_TEMPLATE question;
          messages = [\<lparr>role = User, content = prompt\<rparr>]
      in case py_print PLAN_BANNER of
           Some e \<Rightarrow> (Inl e, w)
         | None \<Rightarrow>
             (let (r, w') = think w messages;
                  response_text = or_empty r
              in case py_print (plan_generated_text response_text) of
                   Some e \<Rightarrow> (Inl e, w')
                 | None \<Rightarrow> (plan_handlers lib response_text, w')))"

section \<open>Tool Registry\<close>

text \<open>
  A tool callable maps a string to a string; it may have effects on the world and it may
  raise.
\<close>

type_synonym 'w tool_func = "pystr \<Rightarrow> 'w \<Rightarrow> (pyexn + pystr) \<times> 'w"

text \<open>
  Modelled from the spec: the class \<open>ToolExecutor\<close> of module \<open>tools\<close> is imported by
  \<open>Plan_and_solve.py\<close> and is not among the sources.  The spec gives it as a registry
  of entries (unique name, description, callable) with \<open>getTool(name)\<close> returning the
  callable or absent, and \<open>getAvailableTools()\<close> returning a catalog of the names and
  descriptions for the prompt; the layout of the catalog is the field \<open>catalog\<close>.
\<close>

record 'w ToolExecutor =
  tools :: "(pystr \<times> pystr \<times> 'w tool_func) list"
  catalog :: "(pystr \<times> pystr) list \<Rightarrow> pystr"

definition getTool :: "'w ToolExecutor \<Rightarrow> pystr \<Rightarrow> 'w tool_func option" where
  "getTool reg name = (case map_of (tools reg) name of None \<Rightarrow> None | Some (d, f) \<Rightarrow> Some f)"

definition getAvailableTools :: "'w ToolExecutor \<Rightarrow> pystr" where
  "getAvailableTools reg = catalog reg (map (\<lambda>(name, d, f). (name, d)) (tools reg))"

section \<open>Executor\<close>

text \<open>
  \<open>EXECUTOR_PROMPT_TEMPLATE.format(question, plan, history, current_step,
  tool_instructions)\<close>: the literal text of the template around its five fields.
\<close>

definition EXECUTOR_PROMPT_TEMPLATE :: "pystr \<Rightarrow> pystr \<Rightarrow> pystr \<Rightarrow> pystr \<Rightarrow> pystr \<Rightarrow> pystr" where
  "EXECUTOR_PROMPT_TEMPLATE tool_instructions question plan_text history_text current_step =
     [10, 20320, 26159, 19968, 20301, 39030, 32423, 30340, 65, 73, 25191, 34892, 19987,
     23478, 12290, 20320, 30340, 20219, 21153, 26159, 20005, 26684, 25353, 29031, 32473,
     23450, 30340, 35745, 21010, 65292, 19968, 27493, 27493, 22320, 35299, 20915, 38382,
     39064, 12290, 10, 20320, 23558, 25910, 21040, 21407, 22987, 38382, 39064, 12289,
     23436, 25972, 30340, 35745, 21010, 12289, 20197, 21450, 21040, 30446, 21069, 20026,
     27490, 24050, 32463, 23436, 25104, 30340, 27493, 39588, 21644, 32467, 26524, 12290,
     10, 20320, 21487, 20197, 20351, 29992, 19979, 26041, 30340, 24037, 20855, 21015,
     34920, 33719, 21462, 25152, 38656, 20449, 24687, 65306, 10]
     @ tool_instructions @
     [10, 10, 20351, 29992, 24037, 20855, 26102, 65292, 35831, 36755, 20986, 32, 74, 83,
     79, 78, 65306, 123, 34, 116, 111, 111, 108, 34, 58, 32, 34, 24037, 20855, 21517,
     31216, 34, 44, 32, 34, 105, 110, 112, 117, 116, 34, 58, 32, 34, 24037, 20855, 36755,
     20837, 34, 125, 12290, 10, 24403, 20320, 33719, 24471, 26368, 32456, 31572, 26696,
     26102, 65292, 20165, 36755, 20986, 31572, 26696, 25991, 26412, 65292, 19981, 35201,
     20877, 36755, 20986, 32, 74, 83, 79, 78, 32, 25110, 39069, 22806, 35299, 37322, 12290,
     10, 10, 35, 32, 21407, 22987, 38382, 39064, 58, 10]
     @ question @
     [10, 10, 35, 32, 23436, 25972, 35745, 21010, 58, 10]
     @ plan_text @
     [10, 10, 35, 32, 21382, 21490, 27493, 39588, 19982, 32467, 26524, 58, 10]
     @ history_text @
     [10, 10, 35, 32, 24403, 21069, 27493, 39588, 58, 10]
     @ current_step @
     [10]"

text \<open>The placeholders for an empty registry and an empty History.\<close>

definition no_tools_placeholder :: pystr where
  "no_tools_placeholder = [65288, 24403, 21069, 26080, 21487, 29992, 24037, 20855, 65289]"

definition no_history_placeholder :: pystr where
  "no_history_placeholder = [26080]"

text \<open>
  The texts the loop builds: the History record of a tool call
  (\<open>"... {i}: {step}\n... {tool_name} -> {observation}\n\n"\<close>), the terminal History
  record of a step (\<open>"... {i}: {step}\n...: {response_text}\n\n"\<close>), the observation for
  a tool that is not registered, and the user turn that carries an observation.
\<close>

definition tool_record :: "nat \<Rightarrow> pystr \<Rightarrow> pystr \<Rightarrow> pystr \<Rightarrow> pystr" where
  "tool_record i step tool_name observation =
     [27493, 39588, 32] @ str_nat i @ [58, 32] @ step @
     [10, 20351, 29992, 24037, 20855, 32] @ tool_name @ [32, 45, 62, 32] @ observation @
     [10, 10]"

definition step_record :: "nat \<Rightarrow> pystr \<Rightarrow> pystr \<Rightarrow> pystr" where
  "step_record i step result =
     [27493, 39588, 32] @ str_nat i @ [58, 32] @ step @
     [10, 32467, 26524, 58, 32] @ result @ [10, 10]"

definition unregistered_observation :: "pystr \<Rightarrow> pystr" where
  "unregistered_observation tool_name =
     [38169, 35823, 65306, 24037, 20855, 32, 39] @ tool_name @
     [39, 32, 26410, 27880, 20876, 12290]"

definition observation_message :: "pystr \<Rightarrow> pystr \<Rightarrow> message" where
  "observation_message tool_name observation =
     \<lparr>role = User,
      content = [24037, 20855, 32, 39] @ tool_name @
                [39, 32, 30340, 36755, 20986, 58, 32] @ observation\<rparr>"

text \<open>
  The texts \<open>execute\<close> prints: its banner (line 108), the line of a step (line 110),
  the tool and its input (line 141), the tool and its output (line 143), and the result
  of a step (line 154).
\<close>

definition EXECUTE_BANNER :: pystr where
  "EXECUTE_BANNER =
     [10, 45, 45, 45, 32, 27491, 22312, 25191, 34892, 35745, 21010, 32, 45, 45, 45]"

definition step_banner :: "nat \<Rightarrow> nat \<Rightarrow> pystr \<Rightarrow> pystr" where
  "step_banner i n step =
     [10, 45, 62, 32, 27491, 22312, 25191, 34892, 27493, 39588, 32] @ str_nat i @ [47] @
     str_nat n @ [58, 32] @ step"

definition tool_use_text :: "pystr \<Rightarrow> pystr \<Rightarrow> pystr" where
  "tool_use_text tool_name tool_input =
     [128736, 65039, 32, 20351, 29992, 24037, 20855, 32, 39] @ tool_name @
     [39, 65292, 36755, 20837, 58, 32] @ tool_input"

definition tool_output_text :: "pystr \<Rightarrow> pystr \<Rightarrow> pystr" where
  "tool_output_text tool_name observation =
     [128229, 32, 24037, 20855, 32, 39] @ tool_name @
     [39, 32, 30340, 36755, 20986, 58, 32] @ observation"

definition step_done_text :: "nat \<Rightarrow> pystr \<Rightarrow> pystr" where
  "step_done_text i answer =
     [9989, 32, 27493, 39588, 32] @ str_nat i @
     [32, 24050, 23436, 25104, 65292, 32467, 26524, 58, 32] @ answer"

record 'w Executor =
  llm_client :: "'w think"
  tool_executor :: "'w ToolExecutor option"
  max_tool_iterations :: int

record tool_request =
  tool :: pystr
  input :: pystr

text \<open>The keys \<open>"tool"\<close> and \<open>"input"\<close>.\<close>

definition key_tool :: pyval where
  "key_tool = PStr [116, 111, 111, 108]"

definition key_input :: pyval where
  "key_input = PStr [105, 110, 112, 117, 116]"

text \<open>
  The nested \<open>try\<close> of \<open>_parse_tool_request\<close>: \<open>json.loads\<close>, and on
  \<open>JSONDecodeError\<close> the fallback \<open>ast.literal_eval\<close>, whose \<open>ValueError\<close> and
  \<open>SyntaxError\<close> make the method return \<open>None\<close>.  The result is the exception that
  leaves the method, or \<open>None\<close> for the early \<open>return None\<close>, or the loaded data.
\<close>

definition load_data :: "pylib \<Rightarrow> pystr \<Rightarrow> pyexn + pyval option" where
  "load_data lib text =
     (case json_loads lib text of
        Inr data \<Rightarrow> Inr (Some data)
      | Inl e \<Rightarrow>
          if isinstance_exn e JSONDecodeError then
            (case literal_eval lib text of
               Inr data \<Rightarrow> Inr (Some data)
             | Inl e' \<Rightarrow>
                 if isinstance_exn e' ValueError \<or> isinstance_exn e' SyntaxError
                 then Inr None
                 else Inl e')
          else Inl e)"

text \<open>
  \<open>_parse_tool_request\<close>.  The two calls of \<open>str\<close> (lines 98 and 99) stand outside
  the \<open>try\<close>: an exception of theirs leaves the method.
\<close>

definition parse_tool_request :: "pylib \<Rightarrow> pystr \<Rightarrow> pyexn + tool_request option" where
  "parse_tool_request lib text =
     (if text = [] then Inr None
      else
        (case load_data lib text of
           Inl e \<Rightarrow> Inl e
         | Inr None \<Rightarrow> Inr None
         | Inr (Some data) \<Rightarrow>
             (case data of
                PDict items \<Rightarrow>
                  if key_tool \<in> set (map fst items) \<and> key_input \<in> set (map fst items) then
                    (case py_str lib (the (map_of items key_tool)) of
                       Inl e \<Rightarrow> Inl e
                     | Inr tool_text \<Rightarrow>
                         (case py_str lib (the (map_of items key_input)) of
                            Inl e \<Rightarrow> Inl e
                          | Inr tool_input \<Rightarrow>
                              (let tool_name = strip_py tool_text
                               in if tool_name \<noteq> []
                                  then Inr (Some \<lparr>tool = tool_name, input = tool_input\<rparr>)
                                  else Inr None)))
                  else Inr None
              | _ \<Rightarrow> Inr None)))"

text \<open>
  The local variables of \<open>execute\<close>, and the world the engine and the tools act on.
  \<open>engine_calls\<close> is not a variable of the code: it logs the conversation passed to each
  call of \<open>think\<close>, so that the calls can be counted and inspected.
\<close>

record 'w frame =
  history :: pystr
  final_answer :: pystr
  messages :: "message list"
  response_text :: pystr
  tool_iterations :: int
  world :: 'w
  engine_calls :: "message list list"

text \<open>
  \<^verbatim>\<open>response_text = self.llm_client.think(messages=messages) or ""\<close> followed by
  \<^verbatim>\<open>messages.append({"role": "assistant", "content": response_text})\<close>.
\<close>

definition call_engine :: "'w Executor \<Rightarrow> 'w frame \<Rightarrow> 'w frame" where
  "call_engine ex fr =
     (let (r, w') = llm_client ex (world fr) (messages fr);
          text = or_empty r
      in fr\<lparr>response_text := text,
            messages := messages fr @ [\<lparr>role = Assistant, content = text\<rparr>],
            world := w',
            engine_calls := engine_calls fr @ [messages fr]\<rparr>)"

text \<open>
  Lines 136 to 143: the lookup of the tool and its call.  The result is \<open>Inl\<close> when an
  exception leaves (of a \<open>print\<close> or of the tool, with the frame reached), and else the
  observation and the world after the call.
\<close>

definition resolve_tool ::
  "'w ToolExecutor \<Rightarrow> pystr \<Rightarrow> pystr \<Rightarrow> 'w frame \<Rightarrow> (pyexn \<times> 'w frame) + (pystr \<times> 'w)" where
  "resolve_tool reg tool_name tool_input fr =
     (case getTool reg tool_name of
        None \<Rightarrow> Inr (unregistered_observation tool_name, world fr)
      | Some tool_func \<Rightarrow>
          (case py_print (tool_use_text tool_name tool_input) of
             Some e \<Rightarrow> Inl (e, fr)
           | None \<Rightarrow>
               (case tool_func tool_input (world fr) of
                  (Inl e, w') \<Rightarrow> Inl (e, fr\<lparr>world := w'\<rparr>)
                | (Inr observation, w') \<Rightarrow>
                    (case py_print (tool_output_text tool_name observation) of
                       Some e \<Rightarrow> Inl (e, fr\<lparr>world := w'\<rparr>)
                     | None \<Rightarrow> Inr (observation, w')))))"

text \<open>
  The body of the \<open>while\<close> loop.  The result is \<open>Inl\<close> when an exception leaves the
  loop (with the frame reached), \<open>Inr None\<close> for \<open>break\<close>, and \<open>Inr (Some fr')\<close> when the
  body ran to its end with the frame \<open>fr'\<close>.
\<close>

definition tool_iteration ::
  "pylib \<Rightarrow> 'w Executor \<Rightarrow> 'w ToolExecutor \<Rightarrow> nat \<Rightarrow> pystr \<Rightarrow> 'w frame
     \<Rightarrow> (pyexn \<times> 'w frame) + 'w frame option" where
  "tool_iteration lib ex reg i step fr =
     (case parse_tool_request lib (response_text fr) of
        Inl e \<Rightarrow> Inl (e, fr)
      | Inr None \<Rightarrow> Inr None
      | Inr (Some request) \<Rightarrow>
          (let tool_name = tool request;
               tool_input = input request
           in case resolve_tool reg tool_name tool_input fr of
                Inl raised \<Rightarrow> Inl raised
              | Inr (observation, w') \<Rightarrow>
                  Inr (Some (call_engine ex
                    (fr\<lparr>history := history fr @ tool_record i step tool_name observation,
                        tool_iterations := tool_iterations fr + 1,
                        messages := messages fr @ [observation_message tool_name observation],
                        world := w'\<rparr>)))))"

text \<open>
  \<^verbatim>\<open>while self.tool_executor and tool_iterations < self.max_tool_iterations\<close>: a bound
  registry is a truthy object.
\<close>

function tool_loop ::
  "pylib \<Rightarrow> 'w Executor \<Rightarrow> nat \<Rightarrow> pystr \<Rightarrow> 'w frame \<Rightarrow> (pyexn \<times> 'w frame) + 'w frame" where
  "tool_loop lib ex i step fr =
     (case tool_executor ex of
        None \<Rightarrow> Inr fr
      | Some reg \<Rightarrow>
          if tool_iterations fr < max_tool_iterations ex then
            (case tool_iteration lib ex reg i step fr of
               Inl raised \<Rightarrow> Inl raised
             | Inr None \<Rightarrow> Inr fr
             | Inr (Some fr') \<Rightarrow> tool_loop lib ex i step fr')
          else Inr fr)"
  by pat_completeness auto
termination
proof (relation "measure (\<lambda>(lib, ex, i, step, fr). nat (max_tool_iterations ex - tool_iterations fr))")
  show "wf (measure (\<lambda>(lib, ex, i, step, fr). nat (max_tool_iterations ex - tool_iterations fr)))"
    by simp
next
  fix lib :: pylib and ex :: "'w Executor" and i :: nat and step :: pystr
    and fr fr' :: "'w frame" and reg x
  assume lt: "tool_iterations fr < max_tool_iterations ex"
    and it: "tool_iteration lib ex reg i step fr = Inr x" and x: "x = Some fr'"
  from it x have "tool_iterations fr' = tool_iterations fr + 1"
    by (auto simp: tool_iteration_def call_engine_def Let_def
             split: sum.splits option.splits prod.splits)
  with lt show "((lib, ex, i, step, fr'), (lib, ex, i, step, fr))
      \<in> measure (\<lambda>(lib, ex, i, step, fr). nat (max_tool_iterations ex - tool_iterations fr))"
    by simp
qed

declare tool_loop.simps [simp del]

text \<open>
  The body of the \<open>for\<close> loop of \<open>execute\<close>, for the step \<open>step\<close> at index \<open>i\<close>,
  in three parts.  First the prompt of the step: the tool catalog or its placeholder,
  and the fields of the template (\<open>plan=plan\<close> is rendered by \<open>str\<close>).
\<close>

definition step_prompt ::
  "pylib \<Rightarrow> 'w Executor \<Rightarrow> pystr \<Rightarrow> pystr list \<Rightarrow> pystr \<Rightarrow> 'w frame \<Rightarrow> pystr" where
  "step_prompt lib ex question plan step fr =
     (let tool_instructions =
            (case tool_executor ex of
               Some reg \<Rightarrow> if tools reg \<noteq> [] then getAvailableTools reg
                           else no_tools_placeholder
             | None \<Rightarrow> no_tools_placeholder)
      in EXECUTOR_PROMPT_TEMPLATE tool_instructions question
           (repr_strs lib plan)
           (if history fr \<noteq> [] then history fr else no_history_placeholder)
           step)"

text \<open>
  Then the fresh conversation, the counter set to 0, and the first call of the engine.
\<close>

definition first_completion ::
  "pylib \<Rightarrow> 'w Executor \<Rightarrow> pystr \<Rightarrow> pystr list \<Rightarrow> pystr \<Rightarrow> 'w frame \<Rightarrow> 'w frame" where
  "first_completion lib ex question plan step fr =
     call_engine ex
       (fr\<lparr>messages := [\<lparr>role = User, content = step_prompt lib ex question plan step fr\<rparr>],
           tool_iterations := 0\<rparr>)"

text \<open>
  The whole body: the line of the step is printed (line 110) before anything else; after
  the loop the terminal History record is appended, the running answer is set, and the
  result is printed (line 154).
\<close>

definition execute_step ::
  "pylib \<Rightarrow> 'w Executor \<Rightarrow> pystr \<Rightarrow> pystr list \<Rightarrow> nat \<Rightarrow> pystr \<Rightarrow> 'w frame
     \<Rightarrow> (pyexn \<times> 'w frame) + 'w frame" where
  "execute_step lib ex question plan i step fr =
     (case py_print (step_banner i (length plan) step) of
        Some e \<Rightarrow> Inl (e, fr)
      | None \<Rightarrow>
          (case tool_loop lib ex i step (first_completion lib ex question plan step fr) of
             Inl raised \<Rightarrow> Inl raised
           | Inr fr3 \<Rightarrow>
               (let fr4 = fr3\<lparr>history := history fr3 @ step_record i step (response_text fr3),
                              final_answer := response_text fr3\<rparr>
                in case py_print (step_done_text i (final_answer fr4)) of
                     Some e \<Rightarrow> Inl (e, fr4)
                   | None \<Rightarrow> Inr fr4)))"

text \<open>\<open>for i, step in enumerate(plan, 1)\<close>; an exception ends the loop.\<close>

fun execute_steps ::
  "pylib \<Rightarrow> 'w Executor \<Rightarrow> pystr \<Rightarrow> pystr list \<Rightarrow> (nat \<times> pystr) list \<Rightarrow> 'w frame
     \<Rightarrow> (pyexn \<times> 'w frame) + 'w frame" where
  "execute_steps lib ex question plan [] fr = Inr fr"
| "execute_steps lib ex question plan ((i, step) # rest) fr =
     (case execute_step lib ex question plan i step fr of
        Inl raised \<Rightarrow> Inl raised
      | Inr fr' \<Rightarrow> execute_steps lib ex question plan rest fr')"

definition initial_frame :: "'w \<Rightarrow> 'w frame" where
  "initial_frame w =
     \<lparr>history = [], final_answer = [], messages = [], response_text = [],
      tool_iterations = 0, world = w, engine_calls = []\<rparr>"

definition execute_run ::
  "pylib \<Rightarrow> 'w Executor \<Rightarrow> pystr \<Rightarrow> pystr list \<Rightarrow> 'w \<Rightarrow> (pyexn \<times> 'w frame) + 'w frame" where
  "execute_run lib ex question plan w =
     (case py_print EXECUTE_BANNER of
        Some e \<Rightarrow> Inl (e, initial_frame w)
      | None \<Rightarrow> execute_steps lib ex question plan (enumerate 1 plan) (initial_frame w))"

text \<open>\<open>Executor.execute\<close>: the final answer, or the exception that left the method.\<close>

definition execute :: "pylib \<Rightarrow> 'w Executor \<Rightarrow> pystr \<Rightarrow> pystr list \<Rightarrow> 'w \<Rightarrow> pyexn + pystr" where
  "execute lib ex question plan w =
     (case execute_run lib ex question plan w of
        Inl (e, fr) \<Rightarrow> Inl e
      | Inr fr \<Rightarrow> Inr (final_answer fr))"

section \<open>Observing a run\<close>



section \<open>Sample inputs\<close>

text \<open>
  A scripted engine, a registry with the one tool \<open>Search\<close>, and what the functions of
  Python 3.11 return on a few texts.  They give the concrete runs at which the theorems
  below are instantiated.  The texts are written out as code points, independently of
  the constants of the module.
\<close>

definition scripted_think :: "pystr option list think" where
  "scripted_think w msgs = (case w of [] \<Rightarrow> (None, []) | r # rs \<Rightarrow> (r, rs))"

text \<open>The names \<open>Search\<close> and \<open>Foo\<close>, and the texts \<open>X\<close> and \<open>ANSWER\<close>.\<close>

definition name_Search :: pystr where
  "name_Search = [83, 101, 97, 114, 99, 104]"

definition name_Foo :: pystr where
  "name_Foo = [70, 111, 111]"

definition text_X :: pystr where
  "text_X = [88]"

definition text_ANSWER :: pystr where
  "text_ANSWER = [65, 78, 83, 87, 69, 82]"

text \<open>\<^verbatim>\<open>{"tool": "Search", "input": "X"}\<close>\<close>

definition text_search_request :: pystr where
  "text_search_request =
     [123, 34, 116, 111, 111, 108, 34, 58, 32, 34, 83, 101, 97, 114, 99, 104, 34, 44,
      32, 34, 105, 110, 112, 117, 116, 34, 58, 32, 34, 88, 34, 125]"

text \<open>\<^verbatim>\<open>{"tool": "Foo", "input": "X"}\<close>\<close>

definition text_foo_request :: pystr where
  "text_foo_request =
     [123, 34, 116, 111, 111, 108, 34, 58, 32, 34, 70, 111, 111, 34, 44, 32, 34, 105,
      110, 112, 117, 116, 34, 58, 32, 34, 88, 34, 125]"

text \<open>\<^verbatim>\<open>{"tool": "Search", "input": "X", "note": "y"}\<close>\<close>

definition text_noted_request :: pystr where
  "text_noted_request =
     [123, 34, 116, 111, 111, 108, 34, 58, 32, 34, 83, 101, 97, 114, 99, 104, 34, 44,
      32, 34, 105, 110, 112, 117, 116, 34, 58, 32, 34, 88, 34, 44, 32, 34, 110, 111,
      116, 101, 34, 58, 32, 34, 121, 34, 125]"

text \<open>The request of \<open>Search\<close> with a space before it and a space and a line feed after it.\<close>

definition text_padded_request :: pystr where
  "text_padded_request =
     [32, 123, 34, 116, 111, 111, 108, 34, 58, 32, 34, 83, 101, 97, 114, 99, 104, 34,
      44, 32, 34, 105, 110, 112, 117, 116, 34, 58, 32, 34, 88, 34, 125, 32, 10]"

text \<open>The request of \<open>Search\<close> between two ideographic spaces, U+3000.\<close>

definition text_wide_request :: pystr where
  "text_wide_request =
     [12288, 123, 34, 116, 111, 111, 108, 34, 58, 32, 34, 83, 101, 97, 114, 99, 104,
      34, 44, 32, 34, 105, 110, 112, 117, 116, 34, 58, 32, 34, 88, 34, 125, 12288]"

text \<open>\<^verbatim>\<open>{"tool": " ", "input": "X"}\<close>\<close>

definition text_blank_request :: pystr where
  "text_blank_request =
     [123, 34, 116, 111, 111, 108, 34, 58, 32, 34, 32, 34, 44, 32, 34, 105, 110, 112,
      117, 116, 34, 58, 32, 34, 88, 34, 125]"

text \<open>\<^verbatim>\<open>{'tool': 'Search', 'input': 'X'}\<close>, a Python dict display that is not JSON.\<close>

definition text_quoted_request :: pystr where
  "text_quoted_request =
     [123, 39, 116, 111, 111, 108, 39, 58, 32, 39, 83, 101, 97, 114, 99, 104, 39, 44,
      32, 39, 105, 110, 112, 117, 116, 39, 58, 32, 39, 88, 39, 125]"

text \<open>
  \<^verbatim>\<open>{'tool': 'Search', 'input': 0xFF...F}\<close> with 4000 hexadecimal digits \<open>F\<close>: a Python
  dict display whose input is the integer \<open>16 ^ 4000 - 1\<close>, of more than 4300 decimal
  digits.
\<close>

definition text_hex_request :: pystr where
  "text_hex_request =
     [123, 39, 116, 111, 111, 108, 39, 58, 32, 39, 83, 101, 97, 114, 99, 104, 39, 44, 32,
      39, 105, 110, 112, 117, 116, 39, 58, 32, 48, 120] @ replicate 4000 70 @ [125]"

text \<open>\<^verbatim>\<open>{[1]: 2}\<close>, a dict display whose key is a list.\<close>

definition text_list_key :: pystr where
  "text_list_key =
     [123, 91, 49, 93, 58, 32, 50, 125]"

text \<open>\<^verbatim>\<open>["a","b","c"]\<close>\<close>

definition text_abc_list :: pystr where
  "text_abc_list =
     [91, 34, 97, 34, 44, 34, 98, 34, 44, 34, 99, 34, 93]"

text \<open>\<^verbatim>\<open>["a"]\<close>\<close>

definition text_a_list :: pystr where
  "text_a_list =
     [91, 34, 97, 34, 93]"

text \<open>\<^verbatim>\<open>["a"]\<close> followed by a line feed and a backtick.\<close>

definition text_a_list_tick :: pystr where
  "text_a_list_tick =
     [91, 34, 97, 34, 93, 10, 96]"

text \<open>\<^verbatim>\<open>["a"]\<close> followed by a line feed and two backticks.\<close>

definition text_a_list_ticks :: pystr where
  "text_a_list_ticks =
     [91, 34, 97, 34, 93, 10, 96, 96]"

text \<open>\<^verbatim>\<open>["a\<close>\<close>

definition text_open_list :: pystr where
  "text_open_list =
     [91, 34, 97]"

text \<open>\<^verbatim>\<open>1\<close>\<close>

definition text_one :: pystr where
  "text_one =
     [49]"

text \<open>\<^verbatim>\<open>["a```b"]\<close>, a list of one string that holds three backticks.\<close>

definition text_ticks_list :: pystr where
  "text_ticks_list =
     [91, 34, 97, 96, 96, 96, 98, 34, 93]"

text \<open>The dicts and lists these texts denote.\<close>

definition search_dict :: pyval where
  "search_dict =
     PDict [(PStr [116, 111, 111, 108], PStr [83, 101, 97, 114, 99, 104]),
            (PStr [105, 110, 112, 117, 116], PStr [88])]"

definition foo_dict :: pyval where
  "foo_dict =
     PDict [(PStr [116, 111, 111, 108], PStr [70, 111, 111]),
            (PStr [105, 110, 112, 117, 116], PStr [88])]"

definition noted_dict :: pyval where
  "noted_dict =
     PDict [(PStr [116, 111, 111, 108], PStr [83, 101, 97, 114, 99, 104]),
            (PStr [105, 110, 112, 117, 116], PStr [88]),
            (PStr [110, 111, 116, 101], PStr [121])]"

definition blank_dict :: pyval where
  "blank_dict =
     PDict [(PStr [116, 111, 111, 108], PStr [32]),
            (PStr [105, 110, 112, 117, 116], PStr [88])]"

definition hex_value :: int where
  "hex_value = 16 ^ 4000 - 1"

definition hex_dict :: pyval where
  "hex_dict =
     PDict [(PStr [116, 111, 111, 108], PStr [83, 101, 97, 114, 99, 104]),
            (PStr [105, 110, 112, 117, 116], PInt hex_value)]"

text \<open>Each text with the results of \<open>json.loads\<close> and of \<open>ast.literal_eval\<close> on it.\<close>

definition sample_results :: "(pystr \<times> (pyexn + pyval) \<times> (pyexn + pyval)) list" where
  "sample_results =
     [(text_search_request, Inr search_dict, Inr search_dict),
      (text_foo_request, Inr foo_dict, Inr foo_dict),
      (text_noted_request, Inr noted_dict, Inr noted_dict),
      (text_padded_request, Inr search_dict, Inr search_dict),
      (text_wide_request, Inl JSONDecodeError, Inl SyntaxError),
      (text_blank_request, Inr blank_dict, Inr blank_dict),
      (text_quoted_request, Inl JSONDecodeError, Inr search_dict),
      (text_list_key, Inl JSONDecodeError, Inl TypeError),
      (text_ANSWER, Inl JSONDecodeError, Inl ValueError),
      (text_abc_list,
         Inr (PList [PStr [97], PStr [98], PStr [99]]),
         Inr (PList [PStr [97], PStr [98], PStr [99]])),
      (text_a_list, Inr (PList [PStr [97]]), Inr (PList [PStr [97]])),
      (text_a_list_tick, Inl JSONDecodeError, Inl SyntaxError),
      (text_a_list_ticks, Inl JSONDecodeError, Inl SyntaxError),
      (text_open_list, Inl JSONDecodeError, Inl SyntaxError),
      (text_ticks_list,
         Inr (PList [PStr [97, 96, 96, 96, 98]]),
         Inr (PList [PStr [97, 96, 96, 96, 98]])),
      (text_one, Inr (PInt 1), Inr (PInt 1))]"

fun join_py :: "pystr \<Rightarrow> pystr list \<Rightarrow> pystr" where
  "join_py sep [] = []"
| "join_py sep [x] = x"
| "join_py sep (x # y # ys) = x @ sep @ join_py sep (y # ys)"

text \<open>
  \<open>str\<close> of an integer: its digits, and \<open>ValueError\<close> when there are more than 4300 of
  them.  No other value that is not a string occurs under the keys \<open>tool\<close> and \<open>input\<close>
  of the sample texts; the table has no entry for them.
\<close>

definition str_digits_limit :: int where
  "str_digits_limit = 10 ^ 4300"

fun sample_repr :: "pyval \<Rightarrow> pyexn + pystr" where
  "sample_repr (PInt n) =
     (if str_digits_limit \<le> \<bar>n\<bar> then Inl ValueError
      else Inr ((if n < 0 then [45] else []) @ str_nat (nat \<bar>n\<bar>)))"
| "sample_repr v = Inr []"

text \<open>\<open>str\<close> of a list of strings without quotes, backslashes or control characters.\<close>

definition sample_repr_strs :: "pystr list \<Rightarrow> pystr" where
  "sample_repr_strs xs = [91] @ join_py [44, 32] (map (\<lambda>s. [39] @ s @ [39]) xs) @ [93]"

text \<open>
  The messages of the exceptions: \<open>list index out of range\<close> for the \<open>IndexError\<close> of an
  index, and for the others \<open>invalid syntax\<close>, which stands for a message of the library
  (they are ASCII texts and the runs depend on them only through \<open>print\<close>).
\<close>

definition sample_exn_str :: "pyexn \<Rightarrow> pystr" where
  "sample_exn_str e =
     (case e of
        IndexError \<Rightarrow>
          [108, 105, 115, 116, 32, 105, 110, 100, 101, 120, 32, 111, 117, 116, 32, 111, 102,
           32, 114, 97, 110, 103, 101]
      | _ \<Rightarrow> [105, 110, 118, 97, 108, 105, 100, 32, 115, 121, 110, 116, 97, 120])"

definition sample_lib :: pylib where
  "sample_lib =
     \<lparr>json_loads = (\<lambda>s. case map_of sample_results s of
                            Some (j, l) \<Rightarrow> j | None \<Rightarrow> Inl JSONDecodeError),
      literal_eval = (\<lambda>s. case map_of sample_results s of
                              Some (j, l) \<Rightarrow> l
                            | None \<Rightarrow> if s = text_hex_request then Inr hex_dict
                                      else Inl SyntaxError),
      py_repr = sample_repr,
      repr_strs = sample_repr_strs,
      exn_str = sample_exn_str\<rparr>"

text \<open>The tool \<open>Search\<close> answers \<open>result\<close>; the catalog has a line \<open>- name: description\<close>
  for each tool.\<close>

definition search_tool :: "pystr option list tool_func" where
  "search_tool query w = (Inr [114, 101, 115, 117, 108, 116], w)"

definition sample_registry :: "pystr option list ToolExecutor" where
  "sample_registry =
     \<lparr>tools = [(name_Search,
                [65, 32, 119, 101, 98, 32, 115, 101, 97, 114, 99, 104, 32, 101, 110, 103,
                 105, 110, 101, 46],
                search_tool)],
      catalog = (\<lambda>entries. join_py [10] (map (\<lambda>(name, d). [45, 32] @ name @ [58, 32] @ d) entries))\<rparr>"

definition sample_executor :: "int \<Rightarrow> pystr option list Executor" where
  "sample_executor n =
     \<lparr>llm_client = scripted_think, tool_executor = Some sample_registry,
      max_tool_iterations = n\<rparr>"

text \<open>An Executor with no registry bound.\<close>

definition unbound_executor :: "int \<Rightarrow> pystr option list Executor" where
  "unbound_executor n =
     \<lparr>llm_client = scripted_think, tool_executor = None, max_tool_iterations = n\<rparr>"

text \<open>
  Completions for the Planner, with \<open>\n\<close> a line feed:
  \<^verbatim>\<open>OK\n```python\n["a","b","c"]\n```\n\<close>, \<^verbatim>\<open>```python\n["a```b"]\n```\<close>,
  \<^verbatim>\<open>```python\n["a"]\n````python\<close>, \<^verbatim>\<open>```python\n["a"]\n`````python\<close>, the same as
  the first with the surrogate U+D800 in place of \<open>O\<close>, and the surrogate alone.
\<close>

definition text_fenced_abc :: pystr where
  "text_fenced_abc =
     [79, 75, 10, 96, 96, 96, 112, 121, 116, 104, 111, 110, 10, 91, 34, 97, 34, 44, 34,
      98, 34, 44, 34, 99, 34, 93, 10, 96, 96, 96, 10]"

definition text_fenced_ticks :: pystr where
  "text_fenced_ticks =
     [96, 96, 96, 112, 121, 116, 104, 111, 110, 10, 91, 34, 97, 96, 96, 96, 98, 34, 93,
      10, 96, 96, 96]"

definition text_fenced_overlap :: pystr where
  "text_fenced_overlap =
     [96, 96, 96, 112, 121, 116, 104, 111, 110, 10, 91, 34, 97, 34, 93, 10, 96, 96, 96,
      96, 112, 121, 116, 104, 111, 110]"

definition text_fenced_overlap_two :: pystr where
  "text_fenced_overlap_two =
     [96, 96, 96, 112, 121, 116, 104, 111, 110, 10, 91, 34, 97, 34, 93, 10, 96, 96, 96,
      96, 96, 112, 121, 116, 104, 111, 110]"

definition text_fenced_surrogate :: pystr where
  "text_fenced_surrogate =
     [55296, 75, 10, 96, 96, 96, 112, 121, 116, 104, 111, 110, 10, 91, 34, 97, 34, 44,
      34, 98, 34, 44, 34, 99, 34, 93, 10, 96, 96, 96, 10]"

definition text_surrogate :: pystr where
  "text_surrogate = [55296]"

section \<open>Splitting at the fences\<close>

text \<open>
  Where the separator first occurs at the end of \<open>pre\<close>, \<open>split\<close> cuts there; the
  first piece of a split ends at the first occurrence of the separator, if there is one.
\<close>

lemma split_acc_nonempty: "split_acc sep cur s \<noteq> []"
  by (induction sep cur s rule: split_acc.induct) auto

lemma split_acc_at_sep:
  assumes "sep \<noteq> []"
  shows "split_acc sep cur (sep @ rest) = cur # split_acc sep [] rest"
proof -
  from assms obtain c cs where s: "sep @ rest = c # cs" by (cases sep) auto
  have "prefix sep (c # cs)" unfolding s [symmetric] by simp
  with assms have "split_acc sep cur (c # cs) = cur # split_acc sep [] (drop (length sep) (c # cs))"
    by (simp only: split_acc.simps) simp
  also have "drop (length sep) (c # cs) = rest" unfolding s [symmetric] by simp
  finally show ?thesis unfolding s .
qed

lemma split_acc_first:
  assumes "sep \<noteq> []"
    and "\<forall>i<length pre. \<not> prefix sep (drop i (pre @ sep @ rest))"
  shows "split_acc sep cur (pre @ sep @ rest) = (cur @ pre) # split_acc sep [] rest"
  using assms
proof (induction pre arbitrary: cur)
  case Nil
  then show ?case by (simp add: split_acc_at_sep)
next
  case (Cons p ps)
  have np: "\<not> prefix sep (p # ps @ sep @ rest)"
    using Cons.prems(2) by (auto dest: spec [of _ 0])
  have "\<forall>i<length ps. \<not> prefix sep (drop i (ps @ sep @ rest))"
  proof (intro allI impI)
    fix i assume "i < length ps"
    then have "Suc i < length (p # ps)" by simp
    with Cons.prems(2) have "\<not> prefix sep (drop (Suc i) ((p # ps) @ sep @ rest))" by blast
    then show "\<not> prefix sep (drop i (ps @ sep @ rest))" by simp
  qed
  with Cons.IH [OF Cons.prems(1)] have "split_acc sep (cur @ [p]) (ps @ sep @ rest) = ((cur @ [p]) @ ps) # split_acc sep [] rest"
    by blast
  with np show ?case by simp
qed

lemma split_acc_hd:
  assumes "sep \<noteq> []"
  shows "\<exists>k\<le>length s. hd (split_acc sep cur s) = cur @ take k s
           \<and> (\<forall>i<k. \<not> prefix sep (drop i s))
           \<and> (k < length s \<longrightarrow> prefix sep (drop k s))"
  using assms
proof (induction sep cur s rule: split_acc.induct)
  case (1 sep cur)
  then show ?case by simp
next
  case (2 sep cur c cs)
  show ?case
  proof (cases "prefix sep (c # cs)")
    case True
    with 2 show ?thesis by (intro exI [of _ 0]) simp
  next
    case False
    with 2 obtain k where k: "k \<le> length cs" "hd (split_acc sep (cur @ [c]) cs) = (cur @ [c]) @ take k cs"
      "\<forall>i<k. \<not> prefix sep (drop i cs)" "k < length cs \<longrightarrow> prefix sep (drop k cs)"
      by blast
    have "\<forall>i<Suc k. \<not> prefix sep (drop i (c # cs))"
    proof (intro allI impI)
      fix i assume "i < Suc k"
      then show "\<not> prefix sep (drop i (c # cs))"
        using False k(3) by (cases i) auto
    qed
    with k False 2 show ?thesis by (intro exI [of _ "Suc k"]) simp
  qed
qed

lemma split_acc_absent:
  assumes "\<forall>i. \<not> prefix sep (drop i s)"
  shows "split_acc sep cur s = [cur @ s]"
  using assms
proof (induction s arbitrary: cur)
  case Nil
  show ?case by simp
next
  case (Cons c cs)
  from Cons.prems have np: "\<not> prefix sep (c # cs)" by (auto dest: spec [of _ 0])
  have "\<forall>i. \<not> prefix sep (drop i cs)"
  proof
    fix i
    from Cons.prems have "\<not> prefix sep (drop (Suc i) (c # cs))" by blast
    then show "\<not> prefix sep (drop i cs)" by simp
  qed
  from Cons.IH [OF this] np show ?case by simp
qed

lemma fence_close_prefix_open: "prefix fence_close fence_open"
  by (simp add: fence_close_def fence_open_def)

lemma fence_nonempty: "fence_open \<noteq> []" "fence_close \<noteq> []"
  by (simp_all add: fence_close_def fence_open_def)

lemma split_fenced_block:
  assumes r: "r = pre @ fence_open @ body @ fence_close @ post"
    and first_open: "\<forall>i<length pre. \<not> prefix fence_open (drop i r)"
    and next_close: "\<forall>i<length body. \<not> prefix fence_close (drop i (body @ fence_close @ post))"
    and no_overlap: "\<forall>i. length body < i \<and> i < length body + length fence_close
            \<longrightarrow> \<not> prefix fence_open (drop i (body @ fence_close @ post))"
  shows "plan_str r = Inr (strip_py body)"
proof -
  define s where "s = body @ fence_close @ post"
  have r': "r = pre @ fence_open @ s" by (simp add: r s_def)
  have sp: "split_py fence_open r = pre # split_acc fence_open [] s"
    unfolding split_py_def r'
    using split_acc_first [OF fence_nonempty(1), of pre s "[]"] first_open
    by (simp add: r')
  obtain x xs where xs: "split_acc fence_open [] s = x # xs"
    using split_acc_nonempty [of fence_open "[]" s] by (cases "split_acc fence_open [] s") auto
  have idx1: "index_py (split_py fence_open r) 1 = Inr x"
    by (simp add: sp xs index_py_def)
  from split_acc_hd [OF fence_nonempty(1), of s "[]"] xs
  obtain k where k: "k \<le> length s" "x = take k s"
    "k < length s \<longrightarrow> prefix fence_open (drop k s)"
    by auto
  have len_s: "length s = length body + length fence_close + length post"
    by (simp add: s_def)
  have k_ge: "length body \<le> k"
  proof (rule ccontr)
    assume "\<not> length body \<le> k"
    then have kb: "k < length body" by simp
    with len_s k(3) have "prefix fence_open (drop k s)" by simp
    with fence_close_prefix_open have "prefix fence_close (drop k s)"
      by (rule prefix_order.trans)
    with next_close kb show False by (simp add: s_def)
  qed
  have k_cases: "k = length body \<or> length body + length fence_close \<le> k"
  proof (rule ccontr)
    assume "\<not> ?thesis"
    with k_ge have kk: "length body < k" "k < length body + length fence_close" by auto
    with len_s k(3) have "prefix fence_open (drop k s)" by simp
    with no_overlap kk show False by (simp add: s_def)
  qed
  obtain y ys where ys: "split_acc fence_close [] x = y # ys"
    using split_acc_nonempty [of fence_close "[]" x] by (cases "split_acc fence_close [] x") auto
  from split_acc_hd [OF fence_nonempty(2), of x "[]"] ys
  obtain k' where k': "k' \<le> length x" "y = take k' x"
    "\<forall>i<k'. \<not> prefix fence_close (drop i x)"
    "k' < length x \<longrightarrow> prefix fence_close (drop k' x)"
    by auto
  have px: "prefix (drop j x) (drop j s)" for j
    unfolding k(2) by (simp add: drop_take take_is_prefix)
  have k'_ge: "length body \<le> k'"
  proof (rule ccontr)
    assume "\<not> length body \<le> k'"
    then have kb: "k' < length body" by simp
    with k_ge k(1) k(2) have "k' < length x" by simp
    with k'(4) have "prefix fence_close (drop k' x)" by simp
    with px [of k'] have "prefix fence_close (drop k' s)"
      using prefix_order.trans by blast
    with next_close kb show False by (simp add: s_def)
  qed
  have "y = body"
  proof (cases "k = length body")
    case True
    then have "x = body" by (simp add: k(2) s_def)
    with k'(1) k'(2) k'_ge show ?thesis by simp
  next
    case False
    with k_cases have kl: "length body + length fence_close \<le> k" by simp
    then have x_eq: "x = body @ fence_close @ take (k - length body - length fence_close) post"
      by (simp add: k(2) s_def)
    have occ: "prefix fence_close (drop (length body) x)"
      by (simp add: x_eq)
    have "\<not> length body < k'"
      using k'(3) occ by blast
    with k'_ge have "k' = length body" by simp
    then show ?thesis by (simp add: k'(2) x_eq)
  qed
  then have idx0: "index_py (split_py fence_close x) 0 = Inr body"
    by (simp add: split_py_def ys index_py_def)
  show ?thesis
    using idx1 idx0 by (simp add: plan_str_def)
qed

lemma plan_str_absent:
  assumes "\<forall>i. \<not> prefix fence_open (drop i r)"
  shows "plan_str r = Inl IndexError"
  by (simp add: plan_str_def split_py_def split_acc_absent [OF assms] index_py_def)

lemma no_occurrence:
  assumes "sep = c # sep'" and "c \<notin> set s"
  shows "\<not> prefix sep (drop i s)"
proof
  assume "prefix sep (drop i s)"
  then obtain zs where "drop i s = c # sep' @ zs" by (auto simp: assms(1) prefix_def)
  then have "c \<in> set (drop i s)" by simp
  then have "c \<in> set s" by (rule in_set_dropD)
  with assms(2) show False by simp
qed

lemma no_occurrence_before:
  assumes "sep = c # sep'" and "c \<notin> set s"
  shows "\<forall>i<length s. \<not> prefix sep (drop i (s @ rest))"
proof (intro allI impI)
  fix i assume i: "i < length s"
  show "\<not> prefix sep (drop i (s @ rest))"
  proof
    assume "prefix sep (drop i (s @ rest))"
    then obtain zs where "drop i (s @ rest) = c # sep' @ zs" by (auto simp: assms(1) prefix_def)
    with i have "drop i s @ rest = c # sep' @ zs" by simp
    moreover from i have "drop i s \<noteq> []" by simp
    ultimately have "hd (drop i s) = c" by (cases "drop i s") auto
    with \<open>drop i s \<noteq> []\<close> have "c \<in> set (drop i s)" using hd_in_set by metis
    then have "c \<in> set s" by (rule in_set_dropD)
    with assms(2) show False by simp
  qed
qed

section \<open>Printing\<close>

text \<open>
  A text is printed without an exception exactly when it holds no surrogate code point;
  the fixed parts of the printed lines hold none.
\<close>

lemma printable_Nil: "printable []"
  by (simp add: printable_def)

lemma printable_Cons: "printable (c # s) \<longleftrightarrow> \<not> is_surrogate c \<and> printable s"
  by (simp add: printable_def)

lemma printable_append: "printable (a @ b) \<longleftrightarrow> printable a \<and> printable b"
  by (simp add: printable_def)

lemma printable_digit: "n < 10 \<Longrightarrow> printable [48 + n]"
  by (simp add: printable_def is_surrogate_def)

lemma printable_str_nat: "printable (str_nat n)"
proof (induction n rule: str_nat.induct)
  case (1 n)
  show ?case
  proof (cases "n < 10")
    case True
    then show ?thesis by (subst str_nat.simps) (simp add: printable_digit)
  next
    case False
    have "n mod 10 < 10" by simp
    then have "printable [48 + n mod 10]" by (rule printable_digit)
    with False 1 show ?thesis
      by (subst str_nat.simps) (simp add: printable_append)
  qed
qed

lemma py_print_None: "py_print s = None \<longleftrightarrow> printable s"
  by (simp add: py_print_def)

lemma py_print_cases: "py_print s = (if printable s then None else Some UnicodeEncodeError)"
  by (simp add: py_print_def)

lemma printable_planner_texts:
  "printable PLAN_BANNER"
  "printable (plan_generated_text r) \<longleftrightarrow> printable r"
  "printable (plan_error_text m) \<longleftrightarrow> printable m"
  "printable (plan_raw_text r) \<longleftrightarrow> printable r"
  "printable (plan_unknown_text m) \<longleftrightarrow> printable m"
  by (simp_all add: PLAN_BANNER_def plan_generated_text_def plan_error_text_def
        plan_raw_text_def plan_unknown_text_def printable_Cons printable_Nil is_surrogate_def)

lemma printable_executor_texts:
  "printable EXECUTE_BANNER"
  "printable (step_banner i n step) \<longleftrightarrow> printable step"
  "printable (tool_use_text name inp) \<longleftrightarrow> printable name \<and> printable inp"
  "printable (tool_output_text name obs) \<longleftrightarrow> printable name \<and> printable obs"
  "printable (step_done_text i answer) \<longleftrightarrow> printable answer"
  by (simp_all add: EXECUTE_BANNER_def step_banner_def tool_use_text_def tool_output_text_def
        step_done_text_def printable_Cons printable_Nil printable_append printable_str_nat
        is_surrogate_def)

section \<open>The steps of the Planner\<close>

text \<open>
  \<open>Planner.plan\<close> in terms of its two prints and its handlers; when the response and the
  text of the exception print, every exception of the \<open>try\<close> block ends in the empty
  plan.
\<close>

lemma planner_run:
  "Planner_plan lib think question w =
     (if printable (or_empty (fst (think w [\<lparr>role = User, content = PLANNER_PROMPT_TEMPLATE question\<rparr>])))
      then (plan_handlers lib
              (or_empty (fst (think w [\<lparr>role = User, content = PLANNER_PROMPT_TEMPLATE question\<rparr>]))),
            snd (think w [\<lparr>role = User, content = PLANNER_PROMPT_TEMPLATE question\<rparr>]))
      else (Inl UnicodeEncodeError,
            snd (think w [\<lparr>role = User, content = PLANNER_PROMPT_TEMPLATE question\<rparr>])))"
  by (simp add: Planner_plan_def Let_def py_print_cases printable_planner_texts
           split: prod.splits)

lemma plan_handlers_list:
  "plan_try lib r = Inr steps \<Longrightarrow> plan_handlers lib r = Inr steps"
  by (simp add: plan_handlers_def)

lemma plan_handlers_raised:
  assumes "plan_try lib r = Inl e" and "printable r" and "printable (exn_str lib e)"
  shows "plan_handlers lib r = Inr []"
  using assms
  by (simp add: plan_handlers_def py_print_cases printable_planner_texts)

lemma planner_empty_when_printed:
  assumes "think w [\<lparr>role = User, content = PLANNER_PROMPT_TEMPLATE question\<rparr>] = (ro, w')"
    and "r = or_empty ro"
    and "printable r"
    and "plan_try lib r = Inl e"
    and "printable (exn_str lib e)"
  shows "Planner_plan lib think question w = (Inr [], w')"
  using assms by (simp add: planner_run plan_handlers_raised)

section \<open>The steps of the Executor\<close>

text \<open>
  The fields of the frame after a call of the engine, after one run of the loop body and
  after the loop; a step in terms of its two prints and the loop.
\<close>

lemma call_engine_fields:
  "engine_calls (call_engine ex fr) = engine_calls fr @ [messages fr]"
  "tool_iterations (call_engine ex fr) = tool_iterations fr"
  "history (call_engine ex fr) = history fr"
  "final_answer (call_engine ex fr) = final_answer fr"
  "response_text (call_engine ex fr) = or_empty (fst (llm_client ex (world fr) (messages fr)))"
  "world (call_engine ex fr) = snd (llm_client ex (world fr) (messages fr))"
  "messages (call_engine ex fr) =
     messages fr @ [\<lparr>role = Assistant, content = response_text (call_engine ex fr)\<rparr>]"
  by (simp_all add: call_engine_def Let_def split: prod.splits)

lemma first_completion_fields:
  "engine_calls (first_completion lib ex question plan step fr) =
     engine_calls fr @ [[\<lparr>role = User, content = step_prompt lib ex question plan step fr\<rparr>]]"
  "tool_iterations (first_completion lib ex question plan step fr) = 0"
  "history (first_completion lib ex question plan step fr) = history fr"
  "final_answer (first_completion lib ex question plan step fr) = final_answer fr"
  "response_text (first_completion lib ex question plan step fr) =
     or_empty (fst (llm_client ex (world fr)
       [\<lparr>role = User, content = step_prompt lib ex question plan step fr\<rparr>]))"
  "messages (first_completion lib ex question plan step fr) =
     [\<lparr>role = User, content = step_prompt lib ex question plan step fr\<rparr>,
      \<lparr>role = Assistant,
       content = response_text (first_completion lib ex question plan step fr)\<rparr>]"
  by (simp_all add: first_completion_def call_engine_fields)

lemma resolve_tool_unregistered:
  "getTool reg tool_name = None \<Longrightarrow>
     resolve_tool reg tool_name tool_input fr = Inr (unregistered_observation tool_name, world fr)"
  by (simp add: resolve_tool_def)






lemma tool_loop_unbound:
  "tool_executor ex = None \<Longrightarrow> tool_loop lib ex i step fr = Inr fr"
  by (subst tool_loop.simps) simp

lemma tool_loop_exhausted:
  "\<not> tool_iterations fr < max_tool_iterations ex \<Longrightarrow> tool_loop lib ex i step fr = Inr fr"
  by (subst tool_loop.simps) (simp split: option.splits)

lemma tool_loop_bound:
  assumes "tool_executor ex = Some reg" and "tool_iterations fr < max_tool_iterations ex"
  shows "tool_loop lib ex i step fr =
           (case tool_iteration lib ex reg i step fr of
              Inl raised \<Rightarrow> Inl raised
            | Inr None \<Rightarrow> Inr fr
            | Inr (Some fr') \<Rightarrow> tool_loop lib ex i step fr')"
  using assms by (subst tool_loop.simps) simp

lemma tool_loop_no_request:
  assumes "parse_tool_request lib (response_text fr) = Inr None"
  shows "tool_loop lib ex i step fr = Inr fr"
proof (cases "tool_executor ex")
  case None
  then show ?thesis by (rule tool_loop_unbound)
next
  case (Some reg)
  show ?thesis
  proof (cases "tool_iterations fr < max_tool_iterations ex")
    case True
    with Some assms show ?thesis
      by (simp add: tool_loop_bound tool_iteration_def)
  next
    case False
    then show ?thesis by (rule tool_loop_exhausted)
  qed
qed



lemma parse_empty: "parse_tool_request lib [] = Inr None"
  by (simp add: parse_tool_request_def)


lemma execute_step_printable:
  assumes "printable step"
  shows "execute_step lib ex question plan i step fr =
     (case tool_loop lib ex i step (first_completion lib ex question plan step fr) of
        Inl raised \<Rightarrow> Inl raised
      | Inr fr3 \<Rightarrow>
          if printable (response_text fr3)
          then Inr (fr3\<lparr>history := history fr3 @ step_record i step (response_text fr3),
                       final_answer := response_text fr3\<rparr>)
          else Inl (UnicodeEncodeError,
                    fr3\<lparr>history := history fr3 @ step_record i step (response_text fr3),
                        final_answer := response_text fr3\<rparr>))"
  using assms
  by (simp add: execute_step_def py_print_cases printable_executor_texts Let_def
           split: sum.splits)

lemma execute_step_no_request:
  assumes "printable step"
    and "parse_tool_request lib (response_text (first_completion lib ex question plan step fr)) = Inr None"
    and "printable (response_text (first_completion lib ex question plan step fr))"
  shows "execute_step lib ex question plan i step fr =
           Inr ((first_completion lib ex question plan step fr)
                  \<lparr>history := history fr @ step_record i step
                     (response_text (first_completion lib ex question plan step fr)),
                   final_answer := response_text (first_completion lib ex question plan step fr)\<rparr>)"
  using assms(3)
  by (simp add: execute_step_printable [OF assms(1)] tool_loop_no_request [OF assms(2)]
        first_completion_fields)

lemma execute_step_unbound:
  assumes "tool_executor ex = None" and "printable step"
  shows "execute_step lib ex question plan i step fr =
     (if printable (response_text (first_completion lib ex question plan step fr))
      then Inr ((first_completion lib ex question plan step fr)
                  \<lparr>history := history fr @ step_record i step
                     (response_text (first_completion lib ex question plan step fr)),
                   final_answer := response_text (first_completion lib ex question plan step fr)\<rparr>)
      else Inl (UnicodeEncodeError,
                (first_completion lib ex question plan step fr)
                  \<lparr>history := history fr @ step_record i step
                     (response_text (first_completion lib ex question plan step fr)),
                   final_answer := response_text (first_completion lib ex question plan step fr)\<rparr>))"
  by (simp add: execute_step_printable [OF assms(2)] tool_loop_unbound [OF assms(1)]
        first_completion_fields)






lemma execute_run_steps:
  "execute_run lib ex question plan w =
     execute_steps lib ex question plan (enumerate 1 plan) (initial_frame w)"
  by (simp add: execute_run_def py_print_cases printable_executor_texts)

section \<open>The sample inputs evaluated\<close>

lemmas sample_texts =
  text_search_request_def text_foo_request_def text_noted_request_def
  text_padded_request_def text_wide_request_def text_blank_request_def
  text_quoted_request_def text_list_key_def text_ANSWER_def text_abc_list_def
  text_a_list_def text_a_list_tick_def text_a_list_ticks_def text_open_list_def text_one_def
  text_ticks_list_def

lemma sample_literal_eval:
  "literal_eval sample_lib text_abc_list = Inr (PList [PStr [97], PStr [98], PStr [99]])"
  "literal_eval sample_lib text_a_list = Inr (PList [PStr [97]])"
  "literal_eval sample_lib text_ticks_list = Inr (PList [PStr [97, 96, 96, 96, 98]])"
  "literal_eval sample_lib text_open_list = Inl SyntaxError"
  "literal_eval sample_lib text_a_list_tick = Inl SyntaxError"
  "literal_eval sample_lib text_a_list_ticks = Inl SyntaxError"
  by (simp_all add: sample_lib_def sample_results_def sample_texts)

lemma sample_plan_str:
  "plan_str text_fenced_abc = Inr text_abc_list"
  "plan_str text_fenced_ticks = Inr text_open_list"
  "plan_str text_fenced_overlap = Inr text_a_list_tick"
  "plan_str text_surrogate = Inl IndexError"
  "plan_str text_fenced_overlap_two = Inr text_a_list_ticks"
  by (simp_all add: plan_str_def split_py_def index_py_def strip_py_def py_isspace_def
        text_fenced_abc_def text_fenced_ticks_def text_fenced_overlap_def text_surrogate_def
        text_fenced_overlap_two_def fence_open_def fence_close_def text_abc_list_def
        text_open_list_def text_a_list_tick_def text_a_list_ticks_def)

lemma sample_printable:
  "printable text_fenced_abc" "printable text_fenced_ticks" "printable text_fenced_overlap"
  "\<not> printable text_fenced_surrogate" "\<not> printable text_surrogate"
  "printable (exn_str sample_lib e)"
  "printable text_fenced_overlap_two"
  by (simp_all add: text_fenced_abc_def text_fenced_ticks_def text_fenced_overlap_def
        text_fenced_overlap_two_def text_fenced_surrogate_def text_surrogate_def sample_lib_def sample_exn_str_def
        printable_Cons printable_Nil is_surrogate_def split: pyexn.splits)

lemma sample_planner_run:
  assumes "r \<noteq> []"
  shows "Planner_plan sample_lib scripted_think q [Some r] =
     (if printable r then (plan_handlers sample_lib r, []) else (Inl UnicodeEncodeError, []))"
  using assms by (simp add: planner_run scripted_think_def or_empty_def)

lemma sample_nonempty:
  "text_search_request \<noteq> []" "text_foo_request \<noteq> []" "text_noted_request \<noteq> []"
  "text_padded_request \<noteq> []" "text_wide_request \<noteq> []" "text_blank_request \<noteq> []"
  "text_quoted_request \<noteq> []" "text_hex_request \<noteq> []"
  "text_list_key \<noteq> []" "text_ANSWER \<noteq> []" "text_surrogate \<noteq> []"
  by (simp_all add: sample_texts text_hex_request_def text_surrogate_def)

lemma sample_hex_unlisted: "map_of sample_results text_hex_request = None"
proof -
  have "\<forall>k\<in>fst ` set sample_results. length k < 100"
    by (simp add: sample_results_def sample_texts)
  moreover have "length text_hex_request = 4031"
    by (simp add: text_hex_request_def)
  ultimately have "text_hex_request \<notin> fst ` set sample_results"
    by auto
  then show ?thesis by (simp add: map_of_eq_None_iff)
qed

lemma sample_json_loads:
  "json_loads sample_lib text_search_request = Inr search_dict"
  "json_loads sample_lib text_foo_request = Inr foo_dict"
  "json_loads sample_lib text_noted_request = Inr noted_dict"
  "json_loads sample_lib text_padded_request = Inr search_dict"
  "json_loads sample_lib text_wide_request = Inl JSONDecodeError"
  "json_loads sample_lib text_blank_request = Inr blank_dict"
  "json_loads sample_lib text_quoted_request = Inl JSONDecodeError"
  "json_loads sample_lib text_list_key = Inl JSONDecodeError"
  "json_loads sample_lib text_ANSWER = Inl JSONDecodeError"
  by (simp_all add: sample_lib_def sample_results_def sample_texts)

lemma sample_json_loads_hex:
  "json_loads sample_lib text_hex_request = Inl JSONDecodeError"
  by (simp add: sample_lib_def sample_hex_unlisted)

lemma sample_literal_eval_fallback:
  "literal_eval sample_lib text_wide_request = Inl SyntaxError"
  "literal_eval sample_lib text_quoted_request = Inr search_dict"
  "literal_eval sample_lib text_list_key = Inl TypeError"
  "literal_eval sample_lib text_ANSWER = Inl ValueError"
  by (simp_all add: sample_lib_def sample_results_def sample_texts)

lemma sample_literal_eval_hex:
  "literal_eval sample_lib text_hex_request = Inr hex_dict"
  by (simp add: sample_lib_def sample_hex_unlisted)

lemma hex_value_over_limit: "str_digits_limit \<le> \<bar>hex_value\<bar>"
proof -
  have a: "(10::int) ^ 43 < 16 ^ 40" by simp
  have "((10::int) ^ 43) ^ 100 < (16 ^ 40) ^ 100"
    by (rule power_strict_mono [OF a]) simp_all
  moreover have "(4300::nat) = 43 * 100" by simp
  then have "(10::int) ^ 4300 = (10 ^ 43) ^ 100"
    by (simp only: power_mult)
  moreover have "(4000::nat) = 40 * 100" by simp
  then have "(16::int) ^ 4000 = (16 ^ 40) ^ 100"
    by (simp only: power_mult)
  ultimately have lt: "(10::int) ^ 4300 < 16 ^ 4000"
    by (simp only:)
  then have le: "(10::int) ^ 4300 \<le> 16 ^ 4000 - 1"
    by (simp only: zle_diff1_eq)
  have z: "(0::int) \<le> 10 ^ 4300"
    by (rule zero_le_power) simp
  have "(0::int) \<le> 16 ^ 4000 - 1"
    by (rule order_trans [OF z le])
  then have "\<bar>(16::int) ^ 4000 - 1\<bar> = 16 ^ 4000 - 1"
    by (rule abs_of_nonneg)
  with le show ?thesis
    by (simp only: str_digits_limit_def hex_value_def)
qed

lemma sample_str_hex: "py_str sample_lib (PInt hex_value) = Inl ValueError"
  using hex_value_over_limit by (simp add: py_str_def sample_lib_def)

lemma keys_distinct: "key_tool \<noteq> key_input"
  by (simp add: key_tool_def key_input_def)

lemma sample_strip:
  "strip_py [83, 101, 97, 114, 99, 104] = [83, 101, 97, 114, 99, 104]"
  "strip_py [70, 111, 111] = [70, 111, 111]"
  "strip_py [32] = []"
  by (simp_all add: strip_py_def py_isspace_def)

lemma sample_parse:
  "parse_tool_request sample_lib text_search_request
     = Inr (Some \<lparr>tool = name_Search, input = text_X\<rparr>)"
  "parse_tool_request sample_lib text_foo_request
     = Inr (Some \<lparr>tool = name_Foo, input = text_X\<rparr>)"
  "parse_tool_request sample_lib text_noted_request
     = Inr (Some \<lparr>tool = name_Search, input = text_X\<rparr>)"
  "parse_tool_request sample_lib text_padded_request
     = Inr (Some \<lparr>tool = name_Search, input = text_X\<rparr>)"
  "parse_tool_request sample_lib text_quoted_request
     = Inr (Some \<lparr>tool = name_Search, input = text_X\<rparr>)"
  "parse_tool_request sample_lib text_wide_request = Inr None"
  "parse_tool_request sample_lib text_blank_request = Inr None"
  "parse_tool_request sample_lib text_list_key = Inl TypeError"
  "parse_tool_request sample_lib text_ANSWER = Inr None"
  by (simp_all add: parse_tool_request_def load_data_def sample_json_loads
        sample_literal_eval_fallback sample_nonempty py_str_def sample_strip
        search_dict_def foo_dict_def noted_dict_def blank_dict_def
        key_tool_def key_input_def name_Search_def name_Foo_def text_X_def)

lemma sample_parse_hex:
  "parse_tool_request sample_lib text_hex_request = Inl ValueError"
  using sample_str_hex
  by (simp add: parse_tool_request_def load_data_def sample_json_loads_hex
        sample_literal_eval_hex sample_nonempty hex_dict_def key_tool_def key_input_def
        py_str_def)

lemma sample_getTool:
  "getTool sample_registry name_Search = Some search_tool"
  "getTool sample_registry name_Foo = None"
  by (simp_all add: getTool_def sample_registry_def name_Search_def name_Foo_def)

lemma sample_printable_texts:
  "printable name_Search" "printable name_Foo" "printable text_X" "printable text_ANSWER"
  "printable text_search_request" "printable text_list_key"
  "printable [68, 111, 32, 65]" "printable [114, 101, 115, 117, 108, 116]"
  by (simp_all add: name_Search_def name_Foo_def text_X_def text_ANSWER_def
        text_search_request_def text_list_key_def printable_Cons printable_Nil
        is_surrogate_def)

lemma scripted_first_completion:
  "response_text (first_completion lib (sample_executor n) question plan step (initial_frame (r # rs)))
     = or_empty r"
  "world (first_completion lib (sample_executor n) question plan step (initial_frame (r # rs))) = rs"
  "response_text (first_completion lib (unbound_executor n) question plan step (initial_frame (r # rs)))
     = or_empty r"
  by (simp_all add: first_completion_def call_engine_fields sample_executor_def
        unbound_executor_def scripted_think_def initial_frame_def)


lemma str_nat_one: "str_nat 1 = [49]" "str_nat (Suc 0) = [49]"
  by (subst str_nat.simps, simp)+

section \<open>The Planner\<close>

text \<open>
  Claim C2, as amended.  Let the engine answer the planning prompt with a text that holds
  no surrogate code point and in which the first opening fence \<^verbatim>\<open>```python\<close> is followed
  by \<open>body\<close>, then by the first \<^verbatim>\<open>```\<close> after the opening fence, then by \<open>post\<close>, where
  \<open>post\<close> begins neither with \<^verbatim>\<open>`python\<close> nor with \<^verbatim>\<open>``python\<close> (the closing fence
  is not the start of another opening fence); and let \<open>body\<close>, stripped of surrounding
  whitespace, be a literal that evaluates to a list of strings.  Then \<open>Planner.plan\<close>
  returns exactly that list, in order.
\<close>

theorem planner_returns_fenced_list:
  assumes "think w [\<lparr>role = User, content = PLANNER_PROMPT_TEMPLATE question\<rparr>] = (Some r, w')"
    and "r = pre @ [96, 96, 96, 112, 121, 116, 104, 111, 110] @ body @ [96, 96, 96] @ post"
    and "\<forall>i<length pre. \<not> prefix [96, 96, 96, 112, 121, 116, 104, 111, 110] (drop i r)"
    and "\<forall>i<length body. \<not> prefix [96, 96, 96] (drop i (body @ [96, 96, 96] @ post))"
    and "\<not> prefix [96, 112, 121, 116, 104, 111, 110] post"
    and "\<not> prefix [96, 96, 112, 121, 116, 104, 111, 110] post"
    and "printable r"
    and "literal_eval lib (strip_py body) = Inr (PList (map PStr steps))"
  shows "Planner_plan lib think question w = (Inr (map PStr steps), w')"
proof -
  have fo: "fence_open = [96, 96, 96, 112, 121, 116, 104, 111, 110]"
    by (simp add: fence_open_def)
  have fc: "fence_close = [96, 96, 96]"
    by (simp add: fence_close_def)
  have "\<forall>i. length body < i \<and> i < length body + length fence_close
            \<longrightarrow> \<not> prefix fence_open (drop i (body @ fence_close @ post))"
  proof (intro allI impI)
    fix i assume i: "length body < i \<and> i < length body + length fence_close"
    then have "i - length body = 1 \<or> i - length body = 2"
      by (auto simp: fc)
    then have "\<not> prefix fence_open (drop (i - length body) (fence_close @ post))"
      using assms(5,6) by (cases post) (auto simp: fc fo)
    moreover from i have "drop i (body @ fence_close @ post) = drop (i - length body) (fence_close @ post)"
      by simp
    ultimately show "\<not> prefix fence_open (drop i (body @ fence_close @ post))" by simp
  qed
  moreover have "r = pre @ fence_open @ body @ fence_close @ post"
    using assms(2) by (simp add: fo fc)
  moreover have "\<forall>i<length pre. \<not> prefix fence_open (drop i r)"
    using assms(3) by (simp add: fo)
  moreover have "\<forall>i<length body. \<not> prefix fence_close (drop i (body @ fence_close @ post))"
    using assms(4) by (simp add: fc)
  ultimately have ps: "plan_str r = Inr (strip_py body)"
    by (intro split_fenced_block) 
  have "r \<noteq> []" using assms(2) by simp
  then have "or_empty (Some r) = r" by (simp add: or_empty_def)
  with ps assms(1,7,8) show ?thesis
    by (simp add: planner_run plan_handlers_def plan_try_def)
qed

text \<open>
  The run of the amended C2 on the completion
  \<^verbatim>\<open>OK\n```python\n["a","b","c"]\n```\n\<close>: the plan is \<open>a\<close>, \<open>b\<close>, \<open>c\<close>.
\<close>

theorem planner_returns_fenced_list_witness:
  "Planner_plan sample_lib scripted_think [81] [Some text_fenced_abc]
     = (Inr [PStr [97], PStr [98], PStr [99]], [])"
proof -
  have 1: "scripted_think [Some text_fenced_abc] [\<lparr>role = User, content = PLANNER_PROMPT_TEMPLATE [81]\<rparr>]
             = (Some text_fenced_abc, [])"
    by (simp add: scripted_think_def)
  have 2: "text_fenced_abc = [79, 75, 10] @ [96, 96, 96, 112, 121, 116, 104, 111, 110]
             @ ([10] @ text_abc_list @ [10]) @ [96, 96, 96] @ [10]"
    by (simp add: text_fenced_abc_def text_abc_list_def)
  have 3: "\<forall>i<length [79, 75, 10::nat].
             \<not> prefix [96, 96, 96, 112, 121, 116, 104, 111, 110] (drop i text_fenced_abc)"
    unfolding 2 by (rule no_occurrence_before [where c = 96]) simp_all
  have 4: "\<forall>i<length ([10] @ text_abc_list @ [10]).
             \<not> prefix [96, 96, 96] (drop i (([10] @ text_abc_list @ [10]) @ [96, 96, 96] @ [10]))"
    by (rule no_occurrence_before [where c = 96]) (simp_all add: text_abc_list_def)
  have 5: "\<not> prefix [96, 112, 121, 116, 104, 111, 110] [10::nat]"
    by simp
  have 6: "\<not> prefix [96, 96, 112, 121, 116, 104, 111, 110] [10::nat]"
    by simp
  have 7: "printable text_fenced_abc"
    by (rule sample_printable)
  have "strip_py ([10] @ text_abc_list @ [10]) = text_abc_list"
    by (simp add: strip_py_def py_isspace_def text_abc_list_def)
  then have 8: "literal_eval sample_lib (strip_py ([10] @ text_abc_list @ [10]))
             = Inr (PList (map PStr [[97], [98], [99]]))"
    by (simp add: sample_literal_eval)
  from planner_returns_fenced_list [where think = scripted_think and lib = sample_lib
      and w = "[Some text_fenced_abc]" and question = "[81]" and r = text_fenced_abc
      and pre = "[79, 75, 10]" and body = "[10] @ text_abc_list @ [10]" and post = "[10]"
      and steps = "[[97], [98], [99]]" and w' = "[]", OF 1 2 3 4 5 6 7 8]
  show ?thesis by simp
qed

text \<open>
  Claim C2 as stated fails in three ways.  When the literal itself holds three backticks:
  the completion \<^verbatim>\<open>```python\n["a```b"]\n```\<close> is a fenced block around a literal list of
  one string, but the second \<open>split\<close> cuts inside the string and the plan returned is
  empty.  When the closing fence is the start of another opening fence: on
  \<^verbatim>\<open>```python\n["a"]\n````python\<close> the first \<open>split\<close> cuts at the second
  \<^verbatim>\<open>```python\<close>, a backtick stays behind the list, and the plan returned is empty;
  likewise on \<^verbatim>\<open>```python\n["a"]\n`````python\<close>, where two backticks stay behind.  When
  the response holds a surrogate code point outside the block: the \<open>print\<close> of the
  response raises \<open>UnicodeEncodeError\<close> before the block is looked at.
\<close>

theorem backticks_in_literal_counterexample:
  "(text_fenced_ticks = [96, 96, 96, 112, 121, 116, 104, 111, 110]
        @ ([10] @ text_ticks_list @ [10]) @ [96, 96, 96]
    \<and> literal_eval sample_lib (strip_py ([10] @ text_ticks_list @ [10]))
        = Inr (PList [PStr [97, 96, 96, 96, 98]])
    \<and> Planner_plan sample_lib scripted_think [81] [Some text_fenced_ticks] = (Inr [], []))
   \<and> (text_fenced_overlap = [96, 96, 96, 112, 121, 116, 104, 111, 110]
        @ ([10] @ text_a_list @ [10]) @ [96, 96, 96] @ [96, 112, 121, 116, 104, 111, 110]
    \<and> literal_eval sample_lib (strip_py ([10] @ text_a_list @ [10])) = Inr (PList [PStr [97]])
    \<and> Planner_plan sample_lib scripted_think [81] [Some text_fenced_overlap] = (Inr [], []))
   \<and> (text_fenced_overlap_two = [96, 96, 96, 112, 121, 116, 104, 111, 110]
        @ ([10] @ text_a_list @ [10]) @ [96, 96, 96]
        @ [96, 96, 112, 121, 116, 104, 111, 110]
    \<and> Planner_plan sample_lib scripted_think [81] [Some text_fenced_overlap_two] = (Inr [], []))
   \<and> (text_fenced_surrogate = [55296, 75, 10] @ [96, 96, 96, 112, 121, 116, 104, 111, 110]
        @ ([10] @ text_abc_list @ [10]) @ [96, 96, 96] @ [10]
    \<and> Planner_plan sample_lib scripted_think [81] [Some text_fenced_surrogate]
        = (Inl UnicodeEncodeError, []))"
proof (intro conjI)
  show "text_fenced_ticks = [96, 96, 96, 112, 121, 116, 104, 111, 110]
        @ ([10] @ text_ticks_list @ [10]) @ [96, 96, 96]"
    by (simp add: text_fenced_ticks_def text_ticks_list_def)
  have "strip_py ([10] @ text_ticks_list @ [10]) = text_ticks_list"
    by (simp add: strip_py_def py_isspace_def text_ticks_list_def)
  then show "literal_eval sample_lib (strip_py ([10] @ text_ticks_list @ [10]))
       = Inr (PList [PStr [97, 96, 96, 96, 98]])"
    by (simp add: sample_literal_eval)
  have "text_fenced_ticks \<noteq> []"
    by (simp add: text_fenced_ticks_def)
  then show "Planner_plan sample_lib scripted_think [81] [Some text_fenced_ticks] = (Inr [], [])"
    by (simp add: sample_planner_run sample_printable plan_handlers_def plan_try_def
          sample_plan_str sample_literal_eval py_print_cases printable_planner_texts)
next
  show "text_fenced_overlap = [96, 96, 96, 112, 121, 116, 104, 111, 110]
        @ ([10] @ text_a_list @ [10]) @ [96, 96, 96] @ [96, 112, 121, 116, 104, 111, 110]"
    by (simp add: text_fenced_overlap_def text_a_list_def)
  have "strip_py ([10] @ text_a_list @ [10]) = text_a_list"
    by (simp add: strip_py_def py_isspace_def text_a_list_def)
  then show "literal_eval sample_lib (strip_py ([10] @ text_a_list @ [10])) = Inr (PList [PStr [97]])"
    by (simp add: sample_literal_eval)
  have "text_fenced_overlap \<noteq> []"
    by (simp add: text_fenced_overlap_def)
  then show "Planner_plan sample_lib scripted_think [81] [Some text_fenced_overlap] = (Inr [], [])"
    by (simp add: sample_planner_run sample_printable plan_handlers_def plan_try_def
          sample_plan_str sample_literal_eval py_print_cases printable_planner_texts)
next
  show "text_fenced_overlap_two = [96, 96, 96, 112, 121, 116, 104, 111, 110]
        @ ([10] @ text_a_list @ [10]) @ [96, 96, 96]
        @ [96, 96, 112, 121, 116, 104, 111, 110]"
    by (simp add: text_fenced_overlap_two_def text_a_list_def)
  have "text_fenced_overlap_two \<noteq> []"
    by (simp add: text_fenced_overlap_two_def)
  then show "Planner_plan sample_lib scripted_think [81] [Some text_fenced_overlap_two] = (Inr [], [])"
    by (simp add: sample_planner_run sample_printable plan_handlers_def plan_try_def
          sample_plan_str sample_literal_eval py_print_cases printable_planner_texts)
next
  show "text_fenced_surrogate = [55296, 75, 10] @ [96, 96, 96, 112, 121, 116, 104, 111, 110]
        @ ([10] @ text_abc_list @ [10]) @ [96, 96, 96] @ [10]"
    by (simp add: text_fenced_surrogate_def text_abc_list_def)
  have "text_fenced_surrogate \<noteq> []"
    by (simp add: text_fenced_surrogate_def)
  then show "Planner_plan sample_lib scripted_think [81] [Some text_fenced_surrogate]
        = (Inl UnicodeEncodeError, [])"
    by (simp add: sample_planner_run sample_printable)
qed

text \<open>
  Claim C6 fails at the response that is the one code point U+D800, a lone surrogate: the
  fence is absent from it (the first \<open>split\<close> gives one piece, so the index 1 raises
  \<open>IndexError\<close> inside the \<open>try\<close>), but the \<open>print\<close> of the response in line 44, which
  stands before the \<open>try\<close>, raises \<open>UnicodeEncodeError\<close>, and \<open>Planner.plan\<close> raises
  instead of returning the empty list.
\<close>

theorem surrogate_response_raises_in_plan:
  "plan_str text_surrogate = Inl IndexError
   \<and> Planner_plan sample_lib scripted_think [81] [Some text_surrogate]
       = (Inl UnicodeEncodeError, [])"
proof
  show "plan_str text_surrogate = Inl IndexError"
    by (rule sample_plan_str)
  have "text_surrogate \<noteq> []"
    by (simp add: text_surrogate_def)
  then show "Planner_plan sample_lib scripted_think [81] [Some text_surrogate]
       = (Inl UnicodeEncodeError, [])"
    by (simp add: sample_planner_run sample_printable)
qed

section \<open>Parsing a tool request\<close>

text \<open>
  Claim C7, as amended.  A completion is accepted as a tool request exactly when it is not
  empty, \<open>json.loads\<close> (or, when that raises \<open>JSONDecodeError\<close>, \<open>ast.literal_eval\<close>)
  returns a mapping that has the keys \<open>tool\<close> and \<open>input\<close>, \<open>str\<close> of the two values
  returns, and the tool name is not empty after trimming; the request carries the trimmed
  tool name and the input.  Further keys of the mapping are not looked at.  Text around
  the object is tolerated as far as \<open>json.loads\<close> tolerates it: when \<open>json.loads\<close>
  returns for the wrapped text what it returns for the text, so does the parse.
\<close>

theorem tool_request_accepted_iff:
  "(parse_tool_request lib t = Inr (Some request) \<longleftrightarrow>
      t \<noteq> []
      \<and> (\<exists>items tool_text input_text.
           (json_loads lib t = Inr (PDict items)
              \<or> json_loads lib t = Inl JSONDecodeError \<and> literal_eval lib t = Inr (PDict items))
         \<and> PStr [116, 111, 111, 108] \<in> fst ` set items
         \<and> PStr [105, 110, 112, 117, 116] \<in> fst ` set items
         \<and> py_str lib (the (map_of items (PStr [116, 111, 111, 108]))) = Inr tool_text
         \<and> py_str lib (the (map_of items (PStr [105, 110, 112, 117, 116]))) = Inr input_text
         \<and> strip_py tool_text \<noteq> []
         \<and> request = \<lparr>tool = strip_py tool_text, input = input_text\<rparr>))
   \<and> (\<forall>d. t \<noteq> [] \<and> json_loads lib (ws @ t @ ws') = Inr d \<and> json_loads lib t = Inr d
         \<longrightarrow> parse_tool_request lib (ws @ t @ ws') = parse_tool_request lib t)"
proof
  show "parse_tool_request lib t = Inr (Some request) \<longleftrightarrow>
      t \<noteq> []
      \<and> (\<exists>items tool_text input_text.
           (json_loads lib t = Inr (PDict items)
              \<or> json_loads lib t = Inl JSONDecodeError \<and> literal_eval lib t = Inr (PDict items))
         \<and> PStr [116, 111, 111, 108] \<in> fst ` set items
         \<and> PStr [105, 110, 112, 117, 116] \<in> fst ` set items
         \<and> py_str lib (the (map_of items (PStr [116, 111, 111, 108]))) = Inr tool_text
         \<and> py_str lib (the (map_of items (PStr [105, 110, 112, 117, 116]))) = Inr input_text
         \<and> strip_py tool_text \<noteq> []
         \<and> request = \<lparr>tool = strip_py tool_text, input = input_text\<rparr>)"
  proof (cases "t = []")
    case True
    then show ?thesis by (simp add: parse_tool_request_def)
  next
    case False
    have ld: "load_data lib t = Inr (Some (PDict items)) \<longleftrightarrow>
          (json_loads lib t = Inr (PDict items)
             \<or> json_loads lib t = Inl JSONDecodeError \<and> literal_eval lib t = Inr (PDict items))"
      for items
      by (auto simp: load_data_def split: sum.splits if_splits)
    show ?thesis
    proof (cases "load_data lib t")
      case (Inl e)
      with False ld show ?thesis by (auto simp: parse_tool_request_def)
    next
      case (Inr d)
      show ?thesis
      proof (cases d)
        case None
        with False Inr ld show ?thesis by (auto simp: parse_tool_request_def)
      next
        case (Some data)
        show ?thesis
        proof (cases "\<exists>items. data = PDict items")
          case True
          then obtain items where data: "data = PDict items" by blast
          have u: "(json_loads lib t = Inr (PDict items')
               \<or> json_loads lib t = Inl JSONDecodeError \<and> literal_eval lib t = Inr (PDict items'))
              \<longleftrightarrow> items' = items" for items'
            using ld [of items'] Inr Some data by auto
          show ?thesis
            using False Inr Some data
            by (auto simp: parse_tool_request_def Let_def u key_tool_def key_input_def
                     split: sum.splits)
        next
          case False
          with \<open>t \<noteq> []\<close> Inr Some ld show ?thesis
            by (cases data) (auto simp: parse_tool_request_def)
        qed
      qed
    qed
  qed
  show "\<forall>d. t \<noteq> [] \<and> json_loads lib (ws @ t @ ws') = Inr d \<and> json_loads lib t = Inr d
         \<longrightarrow> parse_tool_request lib (ws @ t @ ws') = parse_tool_request lib t"
    by (auto simp: parse_tool_request_def load_data_def)
qed

text \<open>
  The amended C7 at \<^verbatim>\<open>{"tool": "Search", "input": "X"}\<close>, and at the same text between a
  space and a space and a line feed.
\<close>

theorem tool_request_accepted_iff_witness:
  "parse_tool_request sample_lib text_search_request
     = Inr (Some \<lparr>tool = [83, 101, 97, 114, 99, 104], input = [88]\<rparr>)
   \<and> parse_tool_request sample_lib text_padded_request
     = Inr (Some \<lparr>tool = [83, 101, 97, 114, 99, 104], input = [88]\<rparr>)"
proof -
  have a: "parse_tool_request sample_lib text_search_request
     = Inr (Some \<lparr>tool = [83, 101, 97, 114, 99, 104], input = [88]\<rparr>)"
    by (subst tool_request_accepted_iff [THEN conjunct1])
       (simp add: sample_json_loads sample_nonempty py_str_def search_dict_def sample_strip)
  have p: "text_padded_request = [32] @ text_search_request @ [32, 10]"
    by (simp add: text_padded_request_def text_search_request_def)
  have "json_loads sample_lib ([32] @ text_search_request @ [32, 10]) = Inr search_dict"
    using sample_json_loads(4) unfolding p .
  then have "text_search_request \<noteq> []
      \<and> json_loads sample_lib ([32] @ text_search_request @ [32, 10]) = Inr search_dict
      \<and> json_loads sample_lib text_search_request = Inr search_dict"
    using sample_json_loads(1) sample_nonempty(1) by blast
  with tool_request_accepted_iff [where lib = sample_lib and t = text_search_request
      and ws = "[32]" and ws' = "[32, 10]", THEN conjunct2]
  have "parse_tool_request sample_lib ([32] @ text_search_request @ [32, 10])
      = parse_tool_request sample_lib text_search_request"
    by blast
  with a show ?thesis unfolding p by (simp only:)
qed

text \<open>
  Claim C7 as stated fails in both directions.  Accepted though not a JSON object with
  exactly the two keys: \<^verbatim>\<open>{"tool": "Search", "input": "X", "note": "y"}\<close>, with the
  additional key \<open>note\<close>, and \<^verbatim>\<open>{'tool': 'Search', 'input': 'X'}\<close>, which is no JSON
  and is read by the fallback.  Not accepted though a JSON object with exactly the two
  keys: the request wrapped in the whitespace U+3000 (which \<open>str.isspace\<close> holds of,
  and which neither parser skips), and \<^verbatim>\<open>{"tool": " ", "input": "X"}\<close>, whose tool name
  is empty after trimming.  And on
  \<^verbatim>\<open>{'tool': 'Search', 'input': 0xFF...F}\<close> with 4000 hexadecimal digits the parse
  raises: \<open>str\<close> of the integer, which has more than 4300 decimal digits, raises
  \<open>ValueError\<close> outside the \<open>try\<close>.
\<close>

theorem extra_key_accepted_counterexample:
  "(json_loads sample_lib text_noted_request
      = Inr (PDict [(PStr [116, 111, 111, 108], PStr [83, 101, 97, 114, 99, 104]),
                    (PStr [105, 110, 112, 117, 116], PStr [88]),
                    (PStr [110, 111, 116, 101], PStr [121])])
    \<and> parse_tool_request sample_lib text_noted_request
      = Inr (Some \<lparr>tool = [83, 101, 97, 114, 99, 104], input = [88]\<rparr>))
   \<and> (text_wide_request = [12288] @ text_search_request @ [12288]
    \<and> py_isspace 12288
    \<and> parse_tool_request sample_lib text_wide_request = Inr None)
   \<and> (json_loads sample_lib text_blank_request
      = Inr (PDict [(PStr [116, 111, 111, 108], PStr [32]),
                    (PStr [105, 110, 112, 117, 116], PStr [88])])
    \<and> parse_tool_request sample_lib text_blank_request = Inr None)
   \<and> (json_loads sample_lib text_quoted_request = Inl JSONDecodeError
    \<and> parse_tool_request sample_lib text_quoted_request
      = Inr (Some \<lparr>tool = [83, 101, 97, 114, 99, 104], input = [88]\<rparr>))
   \<and> (literal_eval sample_lib text_hex_request
      = Inr (PDict [(PStr [116, 111, 111, 108], PStr [83, 101, 97, 114, 99, 104]),
                    (PStr [105, 110, 112, 117, 116], PInt hex_value)])
    \<and> parse_tool_request sample_lib text_hex_request = Inl ValueError)"
proof (intro conjI)
  show "json_loads sample_lib text_noted_request
      = Inr (PDict [(PStr [116, 111, 111, 108], PStr [83, 101, 97, 114, 99, 104]),
                    (PStr [105, 110, 112, 117, 116], PStr [88]),
                    (PStr [110, 111, 116, 101], PStr [121])])"
    by (simp add: sample_json_loads noted_dict_def)
  show "parse_tool_request sample_lib text_noted_request
      = Inr (Some \<lparr>tool = [83, 101, 97, 114, 99, 104], input = [88]\<rparr>)"
    by (simp add: sample_parse name_Search_def text_X_def)
  show "text_wide_request = [12288] @ text_search_request @ [12288]"
    by (simp add: text_wide_request_def text_search_request_def)
  show "py_isspace 12288"
    by (simp add: py_isspace_def)
  show "parse_tool_request sample_lib text_wide_request = Inr None"
    by (rule sample_parse)
  show "json_loads sample_lib text_blank_request
      = Inr (PDict [(PStr [116, 111, 111, 108], PStr [32]),
                    (PStr [105, 110, 112, 117, 116], PStr [88])])"
    by (simp add: sample_json_loads blank_dict_def)
  show "parse_tool_request sample_lib text_blank_request = Inr None"
    by (rule sample_parse)
  show "json_loads sample_lib text_quoted_request = Inl JSONDecodeError"
    by (rule sample_json_loads)
  show "parse_tool_request sample_lib text_quoted_request
      = Inr (Some \<lparr>tool = [83, 101, 97, 114, 99, 104], input = [88]\<rparr>)"
    by (simp add: sample_parse name_Search_def text_X_def)
  show "literal_eval sample_lib text_hex_request
      = Inr (PDict [(PStr [116, 111, 111, 108], PStr [83, 101, 97, 114, 99, 104]),
                    (PStr [105, 110, 112, 117, 116], PInt hex_value)])"
    by (simp add: sample_literal_eval_hex hex_dict_def)
  show "parse_tool_request sample_lib text_hex_request = Inl ValueError"
    by (rule sample_parse_hex)
qed

text \<open>
  Claim C4 fails at the completion \<^verbatim>\<open>{[1]: 2}\<close>: \<open>json.loads\<close> raises
  \<open>JSONDecodeError\<close>, the fallback \<open>ast.literal_eval\<close> raises \<open>TypeError\<close> (a list is
  not hashable), which \<open>except (ValueError, SyntaxError)\<close> does not catch, so
  \<open>_parse_tool_request\<close> raises instead of returning \<open>None\<close>.
\<close>

theorem unhashable_key_raises_in_parse:
  "json_loads sample_lib text_list_key = Inl JSONDecodeError
   \<and> literal_eval sample_lib text_list_key = Inl TypeError
   \<and> parse_tool_request sample_lib text_list_key = Inl TypeError"
  by (simp add: sample_json_loads sample_literal_eval_fallback sample_parse)

section \<open>One step of the Executor\<close>

text \<open>
  Claim C3 fails at the same completion \<^verbatim>\<open>{[1]: 2}\<close>, which is not a tool request:
  with a registry bound and a positive budget the \<open>TypeError\<close> leaves \<open>execute\<close>, and
  the step has no result.
\<close>

theorem unhashable_key_aborts_step:
  "execute sample_lib (sample_executor 5) [81] [[68, 111, 32, 65]] [Some text_list_key]
     = Inl TypeError
   \<and> (\<exists>fr. execute_run sample_lib (sample_executor 5) [81] [[68, 111, 32, 65]]
             [Some text_list_key] = Inl (TypeError, fr)
          \<and> length (engine_calls fr) = 1 \<and> final_answer fr = [])"
proof -
  define fr1 where "fr1 = first_completion sample_lib (sample_executor 5) [81] [[68, 111, 32, 65]]
     [68, 111, 32, 65] (initial_frame [Some text_list_key])"
  have r1: "response_text fr1 = text_list_key"
    by (simp add: fr1_def scripted_first_completion or_empty_def sample_nonempty)
  have "tool_iteration sample_lib (sample_executor 5) sample_registry 1 [68, 111, 32, 65] fr1
          = Inl (TypeError, fr1)"
    by (simp add: tool_iteration_def r1 sample_parse)
  moreover have "tool_executor (sample_executor 5) = Some sample_registry"
    "tool_iterations fr1 < max_tool_iterations (sample_executor 5)"
    by (simp_all add: sample_executor_def fr1_def first_completion_fields)
  ultimately have "tool_loop sample_lib (sample_executor 5) 1 [68, 111, 32, 65] fr1 = Inl (TypeError, fr1)"
    by (simp add: tool_loop_bound)
  then have run: "execute_run sample_lib (sample_executor 5) [81] [[68, 111, 32, 65]]
             [Some text_list_key] = Inl (TypeError, fr1)"
    by (simp add: execute_run_steps enumerate_eq_zip execute_step_printable
          sample_printable_texts fr1_def)
  have "length (engine_calls fr1) = 1 \<and> final_answer fr1 = []"
    by (simp add: fr1_def first_completion_fields initial_frame_def)
  with run show ?thesis
    by (simp add: execute_def)
qed

text \<open>
  Claim C8.  Whenever the engine answers \<open>None\<close> or the empty string, at the first call
  of a step or inside the loop, the completion is the empty string; on an empty
  completion the loop ends at once, returning and not raising; so a step whose text holds
  no surrogate code point (its line is printed before the engine is called) and whose
  first completion is absent or empty ends normally after that one call, its result is
  the empty string, and History gains the terminal record of the step with the empty
  result.
\<close>

theorem empty_completion_ends_step:
  "(fst (llm_client ex (world fr) (messages fr)) = None
      \<or> fst (llm_client ex (world fr) (messages fr)) = Some []
     \<longrightarrow> response_text (call_engine ex fr) = [])
   \<and> (response_text fr = [] \<longrightarrow> tool_loop lib ex i step fr = Inr fr)
   \<and> (printable step
       \<and> (fst (llm_client ex (world fr)
             [\<lparr>role = User, content = step_prompt lib ex question plan step fr\<rparr>]) = None
         \<or> fst (llm_client ex (world fr)
             [\<lparr>role = User, content = step_prompt lib ex question plan step fr\<rparr>]) = Some [])
     \<longrightarrow> (\<exists>fr'. execute_step lib ex question plan i step fr = Inr fr'
           \<and> final_answer fr' = []
           \<and> history fr' = history fr @ [27493, 39588, 32] @ str_nat i @ [58, 32] @ step
                @ [10, 32467, 26524, 58, 32, 10, 10]
           \<and> engine_calls fr' = engine_calls fr
                @ [[\<lparr>role = User, content = step_prompt lib ex question plan step fr\<rparr>]]))"
proof (intro conjI impI)
  assume "fst (llm_client ex (world fr) (messages fr)) = None
      \<or> fst (llm_client ex (world fr) (messages fr)) = Some []"
  then show "response_text (call_engine ex fr) = []"
    by (auto simp: call_engine_fields or_empty_def)
next
  assume "response_text fr = []"
  then have "parse_tool_request lib (response_text fr) = Inr None"
    by (simp add: parse_empty)
  then show "tool_loop lib ex i step fr = Inr fr"
    by (rule tool_loop_no_request)
next
  assume a: "printable step
       \<and> (fst (llm_client ex (world fr)
             [\<lparr>role = User, content = step_prompt lib ex question plan step fr\<rparr>]) = None
         \<or> fst (llm_client ex (world fr)
             [\<lparr>role = User, content = step_prompt lib ex question plan step fr\<rparr>]) = Some [])"
  then have r: "response_text (first_completion lib ex question plan step fr) = []"
    by (auto simp: first_completion_fields or_empty_def)
  then have p: "parse_tool_request lib (response_text (first_completion lib ex question plan step fr)) = Inr None"
    by (simp add: parse_empty)
  from r have q: "printable (response_text (first_completion lib ex question plan step fr))"
    by (simp add: printable_Nil)
  from a have s: "printable step" by simp
  from execute_step_no_request [OF s p q] r
  show "\<exists>fr'. execute_step lib ex question plan i step fr = Inr fr'
           \<and> final_answer fr' = []
           \<and> history fr' = history fr @ [27493, 39588, 32] @ str_nat i @ [58, 32] @ step
                @ [10, 32467, 26524, 58, 32, 10, 10]
           \<and> engine_calls fr' = engine_calls fr
                @ [[\<lparr>role = User, content = step_prompt lib ex question plan step fr\<rparr>]]"
    by (simp add: first_completion_fields step_record_def)
qed

text \<open>
  The runs of C8 on an engine that answers \<open>None\<close> and on one that answers the empty
  string: History is the terminal record of step 1, \<open>Do A\<close>, with the empty result.
\<close>

theorem empty_completion_ends_step_witness:
  "(\<exists>fr'. execute_step sample_lib (sample_executor 5) [81] [[68, 111, 32, 65]] 1 [68, 111, 32, 65]
            (initial_frame [None]) = Inr fr'
        \<and> final_answer fr' = [] \<and> length (engine_calls fr') = 1
        \<and> history fr' = [27493, 39588, 32, 49, 58, 32, 68, 111, 32, 65, 10, 32467, 26524, 58,
                          32, 10, 10])
   \<and> (\<exists>fr'. execute_step sample_lib (sample_executor 5) [81] [[68, 111, 32, 65]] 1 [68, 111, 32, 65]
            (initial_frame [Some []]) = Inr fr'
        \<and> final_answer fr' = [] \<and> length (engine_calls fr') = 1
        \<and> history fr' = [27493, 39588, 32, 49, 58, 32, 68, 111, 32, 65, 10, 32467, 26524, 58,
                          32, 10, 10])"
proof -
  have run: "\<exists>fr'. execute_step sample_lib (sample_executor 5) [81] [[68, 111, 32, 65]] 1
            [68, 111, 32, 65] (initial_frame [r]) = Inr fr'
        \<and> final_answer fr' = [] \<and> length (engine_calls fr') = 1
        \<and> history fr' = [27493, 39588, 32, 49, 58, 32, 68, 111, 32, 65, 10, 32467, 26524, 58,
                          32, 10, 10]"
    if r: "r = None \<or> r = Some []" for r
  proof -
    have h: "printable [68, 111, 32, 65]
       \<and> (fst (llm_client (sample_executor 5) (world (initial_frame [r]))
             [\<lparr>role = User, content = step_prompt sample_lib (sample_executor 5) [81]
                [[68, 111, 32, 65]] [68, 111, 32, 65] (initial_frame [r])\<rparr>]) = None
         \<or> fst (llm_client (sample_executor 5) (world (initial_frame [r]))
             [\<lparr>role = User, content = step_prompt sample_lib (sample_executor 5) [81]
                [[68, 111, 32, 65]] [68, 111, 32, 65] (initial_frame [r])\<rparr>]) = Some [])"
      using r
      by (auto simp: sample_executor_def scripted_think_def initial_frame_def
            sample_printable_texts)
    have c: "printable [68, 111, 32, 65]
       \<and> (fst (llm_client (sample_executor 5) (world (initial_frame [r]))
             [\<lparr>role = User, content = step_prompt sample_lib (sample_executor 5) [81]
                [[68, 111, 32, 65]] [68, 111, 32, 65] (initial_frame [r])\<rparr>]) = None
         \<or> fst (llm_client (sample_executor 5) (world (initial_frame [r]))
             [\<lparr>role = User, content = step_prompt sample_lib (sample_executor 5) [81]
                [[68, 111, 32, 65]] [68, 111, 32, 65] (initial_frame [r])\<rparr>]) = Some [])
     \<longrightarrow> (\<exists>fr'. execute_step sample_lib (sample_executor 5) [81] [[68, 111, 32, 65]] 1
              [68, 111, 32, 65] (initial_frame [r]) = Inr fr'
           \<and> final_answer fr' = []
           \<and> history fr' = history (initial_frame [r]) @ [27493, 39588, 32] @ str_nat 1
                @ [58, 32] @ [68, 111, 32, 65] @ [10, 32467, 26524, 58, 32, 10, 10]
           \<and> engine_calls fr' = engine_calls (initial_frame [r])
                @ [[\<lparr>role = User, content = step_prompt sample_lib (sample_executor 5) [81]
                [[68, 111, 32, 65]] [68, 111, 32, 65] (initial_frame [r])\<rparr>]])"
      using empty_completion_ends_step [where lib = sample_lib and ex = "sample_executor 5"
        and question = "[81]" and plan = "[[68, 111, 32, 65]]" and i = 1
        and step = "[68, 111, 32, 65]" and fr = "initial_frame [r]"]
      by blast
    from c h obtain fr' where f:
      "execute_step sample_lib (sample_executor 5) [81] [[68, 111, 32, 65]] 1
              [68, 111, 32, 65] (initial_frame [r]) = Inr fr'"
      "final_answer fr' = []"
      "history fr' = history (initial_frame [r]) @ [27493, 39588, 32] @ str_nat 1
                @ [58, 32] @ [68, 111, 32, 65] @ [10, 32467, 26524, 58, 32, 10, 10]"
      "engine_calls fr' = engine_calls (initial_frame [r])
                @ [[\<lparr>role = User, content = step_prompt sample_lib (sample_executor 5) [81]
                [[68, 111, 32, 65]] [68, 111, 32, 65] (initial_frame [r])\<rparr>]]"
      by blast
    have "history fr' = [27493, 39588, 32, 49, 58, 32, 68, 111, 32, 65, 10, 32467, 26524, 58,
                          32, 10, 10]"
      unfolding f(3) by (simp add: initial_frame_def str_nat_one)
    moreover have "length (engine_calls fr') = 1"
      unfolding f(4) by (simp add: initial_frame_def)
    ultimately show ?thesis
      using f(1,2) by blast
  qed
  show ?thesis
    using run [of None] run [of "Some []"] by simp
qed

text \<open>
  Claim C10 fails at the completion that is the one code point U+D800, a lone surrogate,
  with no registry bound: the step makes its one call and enters no loop, but the
  \<open>print\<close> of the result in line 154 raises \<open>UnicodeEncodeError\<close>, which leaves
  \<open>execute\<close>, so the completion is not returned as the result of the step.
\<close>

theorem surrogate_completion_aborts_step:
  "execute sample_lib (unbound_executor 5) [81] [[68, 111, 32, 65]] [Some text_surrogate]
     = Inl UnicodeEncodeError
   \<and> (\<exists>fr. execute_run sample_lib (unbound_executor 5) [81] [[68, 111, 32, 65]]
             [Some text_surrogate] = Inl (UnicodeEncodeError, fr)
          \<and> length (engine_calls fr) = 1 \<and> response_text fr = [55296])"
proof -
  define fr1 where "fr1 = first_completion sample_lib (unbound_executor 5) [81] [[68, 111, 32, 65]]
     [68, 111, 32, 65] (initial_frame [Some text_surrogate])"
  define fr2 where "fr2 = fr1\<lparr>history := history (initial_frame [Some text_surrogate])
        @ step_record 1 [68, 111, 32, 65] (response_text fr1),
      final_answer := response_text fr1\<rparr>"
  have r1: "response_text fr1 = text_surrogate"
    by (simp add: fr1_def scripted_first_completion or_empty_def sample_nonempty)
  have u: "tool_executor (unbound_executor 5) = None"
    by (simp add: unbound_executor_def)
  have "execute_step sample_lib (unbound_executor 5) [81] [[68, 111, 32, 65]] 1
          [68, 111, 32, 65] (initial_frame [Some text_surrogate]) = Inl (UnicodeEncodeError, fr2)"
    using r1
    by (simp add: execute_step_unbound [OF u] sample_printable_texts sample_printable
          fr1_def [symmetric] fr2_def)
  then have run: "execute_run sample_lib (unbound_executor 5) [81] [[68, 111, 32, 65]]
             [Some text_surrogate] = Inl (UnicodeEncodeError, fr2)"
    by (simp add: execute_run_steps enumerate_eq_zip)
  have "length (engine_calls fr2) = 1 \<and> response_text fr2 = [55296]"
    using r1 by (simp add: fr2_def fr1_def first_completion_fields initial_frame_def
          text_surrogate_def)
  with run show ?thesis
    by (simp add: execute_def)
qed

section \<open>The tool-resolution loop\<close>

text \<open>
  Claim C5.  When the latest completion parses as a request for a tool that the registry
  does not hold, and the budget is not used up, the loop body runs to its end and
  nothing is raised.  The observation is the fixed message of line 139 around the name
  of the tool, written out below by code point.  History gains the record of line 145
  with the step index, the step text, the name and that observation; the counter grows
  by one; the engine is called with the conversation extended by the user turn of line
  148, which holds the name and that observation; its answer is the next completion, and
  the loop goes on from there.
\<close>

theorem unregistered_tool_feeds_back:
  assumes "tool_executor ex = Some reg"
    and "tool_iterations fr < max_tool_iterations ex"
    and "parse_tool_request lib (response_text fr) = Inr (Some request)"
    and "getTool reg (tool request) = None"
  shows "\<exists>fr'. tool_iteration lib ex reg i step fr = Inr (Some fr')
           \<and> tool_loop lib ex i step fr = tool_loop lib ex i step fr'
           \<and> history fr' = history fr
                @ [27493, 39588, 32] @ str_nat i @ [58, 32] @ step
                @ [10, 20351, 29992, 24037, 20855, 32] @ tool request @ [32, 45, 62, 32]
                @ [38169, 35823, 65306, 24037, 20855, 32, 39] @ tool request
                @ [39, 32, 26410, 27880, 20876, 12290] @ [10, 10]
           \<and> tool_iterations fr' = tool_iterations fr + 1
           \<and> engine_calls fr' = engine_calls fr
                @ [messages fr
                    @ [\<lparr>role = User,
                        content = [24037, 20855, 32, 39] @ tool request
                          @ [39, 32, 30340, 36755, 20986, 58, 32]
                          @ [38169, 35823, 65306, 24037, 20855, 32, 39] @ tool request
                          @ [39, 32, 26410, 27880, 20876, 12290]\<rparr>]]
           \<and> response_text fr' = or_empty (fst (llm_client ex (world fr) (last (engine_calls fr'))))
           \<and> last (messages fr') = \<lparr>role = Assistant, content = response_text fr'\<rparr>"
proof -
  define fr' where "fr' = call_engine ex
       (fr\<lparr>history := history fr
              @ tool_record i step (tool request) (unregistered_observation (tool request)),
           tool_iterations := tool_iterations fr + 1,
           messages := messages fr
              @ [observation_message (tool request) (unregistered_observation (tool request))],
           world := world fr\<rparr>)"
  have it: "tool_iteration lib ex reg i step fr = Inr (Some fr')"
    by (simp add: tool_iteration_def assms(3) resolve_tool_unregistered [OF assms(4)]
          Let_def fr'_def)
  have "tool_loop lib ex i step fr = tool_loop lib ex i step fr'"
    by (simp add: tool_loop_bound [OF assms(1,2)] it)
  moreover have "last (messages fr') = \<lparr>role = Assistant, content = response_text fr'\<rparr>"
    unfolding fr'_def by (subst call_engine_fields(7)) simp
  ultimately show ?thesis
    using it
    by (intro exI [of _ fr'])
       (simp add: fr'_def call_engine_fields observation_message_def tool_record_def
          unregistered_observation_def)
qed

text \<open>
  The run of C5 on a request for \<open>Foo\<close>, answered by \<open>ANSWER\<close> on the next call.
\<close>

theorem unregistered_tool_feeds_back_witness:
  "\<exists>fr'. tool_iteration sample_lib (sample_executor 5) sample_registry 1 [68, 111, 32, 65]
           (first_completion sample_lib (sample_executor 5) [81] [[68, 111, 32, 65]]
              [68, 111, 32, 65] (initial_frame [Some text_foo_request, Some text_ANSWER]))
           = Inr (Some fr')
       \<and> history fr' = [27493, 39588, 32, 49, 58, 32, 68, 111, 32, 65, 10, 20351, 29992,
            24037, 20855, 32, 70, 111, 111, 32, 45, 62, 32, 38169, 35823, 65306, 24037, 20855,
            32, 39, 70, 111, 111, 39, 32, 26410, 27880, 20876, 12290, 10, 10]
       \<and> tool_iterations fr' = 1
       \<and> last (last (engine_calls fr')) = \<lparr>role = User,
            content = [24037, 20855, 32, 39, 70, 111, 111, 39, 32, 30340, 36755, 20986, 58, 32,
              38169, 35823, 65306, 24037, 20855, 32, 39, 70, 111, 111, 39, 32, 26410, 27880,
              20876, 12290]\<rparr>
       \<and> response_text fr' = [65, 78, 83, 87, 69, 82]"
proof -
  define fr1 where "fr1 = first_completion sample_lib (sample_executor 5) [81] [[68, 111, 32, 65]]
     [68, 111, 32, 65] (initial_frame [Some text_foo_request, Some text_ANSWER])"
  have r1: "response_text fr1 = text_foo_request"
    by (simp add: fr1_def scripted_first_completion or_empty_def sample_nonempty)
  have w1: "world fr1 = [Some text_ANSWER]"
    by (simp add: fr1_def scripted_first_completion)
  have h1: "history fr1 = []" "tool_iterations fr1 = 0"
    by (simp_all add: fr1_def first_completion_fields initial_frame_def)
  have 1: "tool_executor (sample_executor 5) = Some sample_registry"
    by (simp add: sample_executor_def)
  have 2: "tool_iterations fr1 < max_tool_iterations (sample_executor 5)"
    by (simp add: sample_executor_def fr1_def first_completion_fields)
  have 3: "parse_tool_request sample_lib (response_text fr1)
             = Inr (Some \<lparr>tool = name_Foo, input = text_X\<rparr>)"
    by (simp add: r1 sample_parse)
  have 4: "getTool sample_registry (tool \<lparr>tool = name_Foo, input = text_X\<rparr>) = None"
    by (simp add: sample_getTool)
  from unregistered_tool_feeds_back [OF 1 2 3 4, of 1 "[68, 111, 32, 65]"]
  obtain fr' where f:
    "tool_iteration sample_lib (sample_executor 5) sample_registry 1 [68, 111, 32, 65] fr1 = Inr (Some fr')"
    "history fr' = history fr1
                @ [27493, 39588, 32] @ str_nat 1 @ [58, 32] @ [68, 111, 32, 65]
                @ [10, 20351, 29992, 24037, 20855, 32] @ name_Foo @ [32, 45, 62, 32]
                @ [38169, 35823, 65306, 24037, 20855, 32, 39] @ name_Foo
                @ [39, 32, 26410, 27880, 20876, 12290] @ [10, 10]"
    "tool_iterations fr' = tool_iterations fr1 + 1"
    "engine_calls fr' = engine_calls fr1
                @ [messages fr1
                    @ [\<lparr>role = User,
                        content = [24037, 20855, 32, 39] @ name_Foo
                          @ [39, 32, 30340, 36755, 20986, 58, 32]
                          @ [38169, 35823, 65306, 24037, 20855, 32, 39] @ name_Foo
                          @ [39, 32, 26410, 27880, 20876, 12290]\<rparr>]]"
    "response_text fr' = or_empty (fst (llm_client (sample_executor 5) (world fr1) (last (engine_calls fr'))))"
    by auto
  from f(5) have "response_text fr' = [65, 78, 83, 87, 69, 82]"
    by (simp add: w1 sample_executor_def scripted_think_def or_empty_def text_ANSWER_def)
  with f(1-4) show ?thesis
    unfolding fr1_def [symmetric]
    by (intro exI [of _ fr']) (simp add: h1 str_nat_one name_Foo_def)
qed






end
